theory Spec2Isabelle
  imports Main "HOL-Library.Word"
begin

unbundle bit_operations_syntax

section \<open>The ufunc dispatcher of \<^verbatim>\<open>numbapro/_minidispatch.pyx\<close>\<close>

text \<open>
  \<^verbatim>\<open>cnp.npy_intp\<close> is the pointer-sized signed integer of NumPy. It is modelled as a
  64-bit word: \<open>+\<close>, \<open>-\<close> and \<open>*\<close> wrap around, \<open>sint\<close> reads the signed value. The
  \<^verbatim>\<open>void *\<close> data pointers are addresses of the same width; \<^verbatim>\<open>p += stride\<close> on them
  is byte arithmetic.
\<close>

type_synonym npy_intp = "64 word"

subsection \<open>The scratch buffers and the kernel\<close>

text \<open>
  A stride pointer \<^verbatim>\<open>strides[j]\<close> points into the stride row of operand \<open>j\<close>; it is
  modelled by its offset into that row, and the rows themselves (never written by the
  executor) are the separate argument \<open>rows\<close>. The executor mutates
  \<^verbatim>\<open>data_pointers[j]\<close> and \<^verbatim>\<open>strides[j]\<close> in place: both live in the record that is
  passed through, together with the memory \<open>mem\<close> that only the kernel touches.
\<close>

record 'm scratch =
  data_pointers :: "npy_intp list"
  strides :: "nat list"
  mem :: 'm

text \<open>
  What one invocation \<^verbatim>\<open>function_pointer(&shape[dim_level], data_pointers, strides)\<close>
  passes: the offset of the shape pointer into the shape buffer, the contents of
  \<^verbatim>\<open>data_pointers\<close> and the offsets of the stride pointers.
\<close>

record kcall =
  shape_arg :: nat
  data_arg :: "npy_intp list"
  strides_arg :: "nat list"

text \<open>
  A \<^verbatim>\<open>minifunc\<close> is declared \<^verbatim>\<open>except -1\<close>: returning \<open>-1\<close> raises the exception the
  kernel has set. The model returns that exception as \<open>Some e\<close>, and \<open>None\<close> for any
  other return value, next to the memory the kernel leaves behind. Kernels read the
  three argument arrays and do not write to them.
\<close>

type_synonym ('m, 'e) minifunc = "kcall \<Rightarrow> 'm \<Rightarrow> 'e option \<times> 'm"

text \<open>\<^verbatim>\<open>for j in range(n_ops): xs[j] = f(j, xs[j])\<close> on a C array.\<close>

definition for_ops :: "nat \<Rightarrow> (nat \<Rightarrow> 'a \<Rightarrow> 'a) \<Rightarrow> 'a list \<Rightarrow> 'a list" where
  "for_ops n_ops f xs = fold (\<lambda>j ys. ys[j := f j (ys ! j)]) [0..<n_ops] xs"

subsection \<open>\<^verbatim>\<open>run_higher_dimensional\<close>\<close>

text \<open>
  The loop \<^verbatim>\<open>for i in range(shape[dim_level])\<close> of the \<^verbatim>\<open>else\<close> branch has the bound
  \<^verbatim>\<open>shape[dim_level]\<close>, an \<^verbatim>\<open>npy_intp\<close> that is read once, and the counter
  \<^verbatim>\<open>cdef int i\<close>, a 32-bit signed integer that starts at 0 and is compared with the
  bound as an \<^verbatim>\<open>npy_intp\<close>: the body runs while \<open>i < shape[dim_level]\<close> and \<open>i\<close> is
  incremented after it. With a bound that is not positive the body does not run. With
  a bound above \<open>2147483647\<close> the increment after the iteration \<open>i = 2147483647\<close>
  overflows the counter; the behaviour of the C program is undefined from there (in
  practice the loop goes on), and the model stops with the outcome \<open>CounterOverflow\<close>.
  The body does not use \<open>i\<close>.

  \<^verbatim>\<open>strides[j][dim_level]\<close> reads the row of operand \<open>j\<close> at the pointer's offset plus
  \<open>dim_level\<close>. An exception of the kernel leaves the function at once, with the
  scratch buffers as they are at that moment: the function has no \<^verbatim>\<open>try\<close>.

  \<open>outer_loop\<close> is that loop at the counter value \<open>i\<close>; its \<open>ndim\<close> argument is the
  \<open>ndim - 1\<close> that the body passes to the recursive call.
\<close>

datatype 'e fault = Raised 'e | CounterOverflow

function run_higher_dimensional ::
  "('m, 'e) minifunc \<Rightarrow> npy_intp list \<Rightarrow> npy_intp list list \<Rightarrow> nat \<Rightarrow> nat \<Rightarrow> nat \<Rightarrow>
   'm scratch \<Rightarrow> 'e fault option \<times> 'm scratch"
and outer_loop ::
  "('m, 'e) minifunc \<Rightarrow> npy_intp list \<Rightarrow> npy_intp list list \<Rightarrow> nat \<Rightarrow> nat \<Rightarrow> nat \<Rightarrow>
   npy_intp \<Rightarrow> int \<Rightarrow> 'm scratch \<Rightarrow> 'e fault option \<times> 'm scratch" where
  "run_higher_dimensional function_pointer shape rows ndim n_ops dim_level s =
     (if ndim \<le> 2 then
        (let s1 = (if dim_level \<noteq> 0
                   then s\<lparr>strides := for_ops n_ops (\<lambda>j p. p + dim_level) (strides s)\<rparr>
                   else s)
         in case function_pointer
                   \<lparr>shape_arg = dim_level, data_arg = data_pointers s1,
                    strides_arg = strides s1\<rparr> (mem s1) of
              (Some e, m') \<Rightarrow> (Some (Raised e), s1\<lparr>mem := m'\<rparr>)
            | (None, m') \<Rightarrow>
                (None,
                 if dim_level \<noteq> 0
                 then s1\<lparr>mem := m',
                         strides := for_ops n_ops (\<lambda>j p. p - dim_level) (strides s1)\<rparr>
                 else s1\<lparr>mem := m'\<rparr>))
      else
        (case outer_loop function_pointer shape rows (ndim - 1) n_ops dim_level
                (shape ! dim_level) 0 s of
           (Some f, s') \<Rightarrow> (Some f, s')
         | (None, s') \<Rightarrow>
             (None,
              s'\<lparr>data_pointers :=
                   for_ops n_ops
                     (\<lambda>j p. p - shape ! dim_level * rows ! j ! (strides s' ! j + dim_level))
                     (data_pointers s')\<rparr>)))"
| "outer_loop function_pointer shape rows ndim n_ops dim_level bound i s =
     (if i < sint bound then
        (case run_higher_dimensional function_pointer shape rows ndim n_ops (dim_level + 1) s of
           (Some f, s') \<Rightarrow> (Some f, s')
         | (None, s') \<Rightarrow>
             (let s'' = s'\<lparr>data_pointers :=
                            for_ops n_ops (\<lambda>j p. p + rows ! j ! (strides s' ! j + dim_level))
                              (data_pointers s')\<rparr>
              in if 2147483647 \<le> i then (Some CounterOverflow, s'')
                 else outer_loop function_pointer shape rows ndim n_ops dim_level bound
                        (i + 1) s''))
      else (None, s))"
  by pat_completeness auto
termination
  by (relation "measures
        [\<lambda>x. case x of Inl (fp, shape, rows, ndim, n_ops, dim_level, s) \<Rightarrow> ndim
                      | Inr (fp, shape, rows, ndim, n_ops, dim_level, bound, i, s) \<Rightarrow> ndim,
         \<lambda>x. case x of Inl _ \<Rightarrow> 0
                      | Inr (fp, shape, rows, ndim, n_ops, dim_level, bound, i, s) \<Rightarrow>
                          Suc (nat (2147483647 - i))]")
     auto

subsection \<open>What the executor is expected to do\<close>

text \<open>
  The index combinations of a list of extents, outermost first, in lexicographic order,
  and the byte offset \<open>\<Sum> index * stride\<close> of one combination, read from a stride row
  starting at position \<open>d\<close>.
\<close>

fun index_vectors :: "nat list \<Rightarrow> nat list list" where
  "index_vectors [] = [[]]"
| "index_vectors (n # ns) = concat (map (\<lambda>i. map ((#) i) (index_vectors ns)) [0..<n])"

fun index_offset :: "npy_intp list \<Rightarrow> nat \<Rightarrow> nat list \<Rightarrow> npy_intp" where
  "index_offset row d [] = 0"
| "index_offset row d (i # idx) = of_nat i * row ! d + index_offset row (Suc d) idx"

text \<open>
  The leaf invocation for the index combination \<open>idx\<close> of the dimensions
  \<open>dim_level, dim_level + 1, \<dots>\<close>, when the executor was entered at \<open>dim_level\<close> with
  data pointers \<open>dps\<close> and stride pointer offsets \<open>offs\<close>.
\<close>

definition leaf_call ::
  "npy_intp list list \<Rightarrow> nat list \<Rightarrow> npy_intp list \<Rightarrow> nat \<Rightarrow> nat list \<Rightarrow> kcall" where
  "leaf_call rows offs dps dim_level idx =
     \<lparr>shape_arg = dim_level + length idx,
      data_arg = map (\<lambda>j. dps ! j + index_offset (rows ! j) (offs ! j + dim_level) idx)
                   [0..<length dps],
      strides_arg = map (\<lambda>p. p + (dim_level + length idx)) offs\<rparr>"

definition outer_extents :: "npy_intp list \<Rightarrow> nat \<Rightarrow> nat \<Rightarrow> nat list" where
  "outer_extents shape dim_level n =
     map (\<lambda>k. nat (sint (shape ! (dim_level + k)))) [0..<n]"

definition leaf_calls ::
  "npy_intp list \<Rightarrow> npy_intp list list \<Rightarrow> nat list \<Rightarrow> npy_intp list \<Rightarrow> nat \<Rightarrow> nat \<Rightarrow>
   kcall list" where
  "leaf_calls shape rows offs dps ndim dim_level =
     map (leaf_call rows offs dps dim_level)
       (index_vectors (outer_extents shape dim_level (ndim - 2)))"

text \<open>
  The data pointers after \<open>i\<close> iterations of the loop at \<open>dim_level\<close>: each has
  moved by \<open>i\<close> times its operand's stride in that dimension.
\<close>

definition advanced ::
  "npy_intp list list \<Rightarrow> nat list \<Rightarrow> nat \<Rightarrow> nat \<Rightarrow> npy_intp list \<Rightarrow> npy_intp list" where
  "advanced rows offs dim_level i dps =
     map (\<lambda>j. dps ! j + of_nat i * rows ! j ! (offs ! j + dim_level)) [0..<length dps]"

text \<open>
  Invoking a kernel on a list of calls in order, up to the first failure, which is
  returned with the call that failed.
\<close>

fun run_leaves :: "('m, 'e) minifunc \<Rightarrow> kcall list \<Rightarrow> 'm \<Rightarrow> ('e \<times> kcall) option \<times> 'm" where
  "run_leaves k [] m = (None, m)"
| "run_leaves k (c # cs) m =
     (case k c m of
        (Some e, m') \<Rightarrow> (Some (e, c), m')
      | (None, m') \<Rightarrow> run_leaves k cs m')"

text \<open>
  The scratch state after such a sequence: on success the pointers of the entry state,
  at a failure the pointers that were passed to the failing call.
\<close>

fun settle ::
  "'m scratch \<Rightarrow> ('e \<times> kcall) option \<times> 'm \<Rightarrow> 'e fault option \<times> 'm scratch" where
  "settle s (None, m') = (None, s\<lparr>mem := m'\<rparr>)"
| "settle s (Some (e, c), m') =
     (Some (Raised e), \<lparr>data_pointers = data_arg c, strides = strides_arg c, mem = m'\<rparr>)"

text \<open>A test double for a kernel: it records its calls and never fails.\<close>

definition recording_kernel :: "(kcall list, 'e) minifunc" where
  "recording_kernel c log = (None, log @ [c])"

subsection \<open>NumPy arrays and \<^verbatim>\<open>np.broadcast\<close>\<close>

type_synonym dtype = string

record ndarray =
  a_dtype :: dtype
  a_shape :: "npy_intp list"
  a_strides :: "npy_intp list"
  a_data :: npy_intp

text \<open>
  \<^verbatim>\<open>np.broadcast\<close> is NumPy's. Its shape computation is the loop of
  \<^verbatim>\<open>PyArray_Broadcast\<close>: the number of dimensions is the largest among the operands; in
  dimension \<open>i\<close> the extent starts at 1, an operand with too few dimensions is skipped,
  an extent 1 is skipped, the first other extent is taken and any later extent that
  differs from it raises \<^verbatim>\<open>ValueError\<close> (here \<open>None\<close>).
\<close>

definition broadcast_nd :: "npy_intp list list \<Rightarrow> nat" where
  "broadcast_nd shapes = fold (\<lambda>sh nd. max nd (length sh)) shapes 0"

fun broadcast_dim :: "npy_intp list list \<Rightarrow> nat \<Rightarrow> nat \<Rightarrow> npy_intp \<Rightarrow> npy_intp option" where
  "broadcast_dim [] nd i cur = Some cur"
| "broadcast_dim (sh # shs) nd i cur =
     (if nd \<le> i + length sh then
        (let tmp = sh ! (i + length sh - nd) in
         if tmp = 1 then broadcast_dim shs nd i cur
         else if cur = 1 then broadcast_dim shs nd i tmp
         else if cur \<noteq> tmp then None
         else broadcast_dim shs nd i cur)
      else broadcast_dim shs nd i cur)"

fun broadcast_dims :: "npy_intp list list \<Rightarrow> nat \<Rightarrow> nat list \<Rightarrow> npy_intp list option" where
  "broadcast_dims shapes nd [] = Some []"
| "broadcast_dims shapes nd (i # is) =
     (case broadcast_dim shapes nd i 1 of
        None \<Rightarrow> None
      | Some e \<Rightarrow>
          (case broadcast_dims shapes nd is of
             None \<Rightarrow> None
           | Some es \<Rightarrow> Some (e # es)))"

definition np_broadcast :: "npy_intp list list \<Rightarrow> npy_intp list option" where
  "np_broadcast shapes = broadcast_dims shapes (broadcast_nd shapes) [0..<broadcast_nd shapes]"

text \<open>
  The broadcasting rule in the words of the specification: shapes are aligned at their
  last dimension, a missing leading dimension counts as extent 1; shapes are compatible
  when in every aligned dimension any two extents are equal or one of them is 1; the
  unified extent is the largest extent among those that are not 1 (and 1 when there is
  none).
\<close>

definition aligned_extent :: "nat \<Rightarrow> npy_intp list \<Rightarrow> nat \<Rightarrow> npy_intp" where
  "aligned_extent nd sh i = (if nd \<le> i + length sh then sh ! (i + length sh - nd) else 1)"

definition broadcast_compatible :: "npy_intp list list \<Rightarrow> bool" where
  "broadcast_compatible shapes =
     (\<forall>i<broadcast_nd shapes. \<forall>a\<in>set shapes. \<forall>b\<in>set shapes.
        aligned_extent (broadcast_nd shapes) a i = aligned_extent (broadcast_nd shapes) b i
        \<or> aligned_extent (broadcast_nd shapes) a i = 1
        \<or> aligned_extent (broadcast_nd shapes) b i = 1)"

definition shape_mismatch :: "npy_intp list list \<Rightarrow> bool" where
  "shape_mismatch shapes =
     (\<exists>i<broadcast_nd shapes. \<exists>a\<in>set shapes. \<exists>b\<in>set shapes.
        aligned_extent (broadcast_nd shapes) a i \<noteq> aligned_extent (broadcast_nd shapes) b i
        \<and> 1 < aligned_extent (broadcast_nd shapes) a i
        \<and> 1 < aligned_extent (broadcast_nd shapes) b i)"

definition unified_extent :: "npy_intp list list \<Rightarrow> nat \<Rightarrow> npy_intp" where
  "unified_extent shapes i =
     (case filter (\<lambda>e. e \<noteq> 1)
             (map (\<lambda>sh. aligned_extent (broadcast_nd shapes) sh i) shapes) of
        [] \<Rightarrow> 1
      | e # es \<Rightarrow> fold max es e)"

definition standard_broadcast_shape :: "npy_intp list list \<Rightarrow> npy_intp list" where
  "standard_broadcast_shape shapes = map (unified_extent shapes) [0..<broadcast_nd shapes]"


subsection \<open>\<^verbatim>\<open>np.empty\<close> and the world outside the call\<close>

text \<open>
  The world a call runs in: the arrays \<^verbatim>\<open>np.empty\<close> has allocated so far and the
  contents of all buffers, which only kernels write. \<^verbatim>\<open>np.empty\<close> returns an array of
  the given shape and dtype with the strides of the given order (NumPy skips extents 0
  in the running product) at the address its allocator picks.
\<close>

record 'm world =
  allocated :: "ndarray list"
  contents :: 'm

fun c_strides :: "npy_intp \<Rightarrow> npy_intp list \<Rightarrow> npy_intp list" where
  "c_strides isz [] = []"
| "c_strides isz (d # ds) =
     (isz * prod_list (filter (\<lambda>e. e \<noteq> 0) ds)) # c_strides isz ds"

fun f_strides :: "npy_intp \<Rightarrow> npy_intp list \<Rightarrow> npy_intp list" where
  "f_strides isz [] = []"
| "f_strides isz (d # ds) = isz # f_strides (if d = 0 then isz else isz * d) ds"

definition np_empty ::
  "(dtype \<Rightarrow> npy_intp) \<Rightarrow> (ndarray list \<Rightarrow> npy_intp) \<Rightarrow> npy_intp list \<Rightarrow> dtype \<Rightarrow> char \<Rightarrow>
   'm world \<Rightarrow> ndarray \<times> 'm world" where
  "np_empty isz alloc shape dt order w =
     (let a = \<lparr>a_dtype = dt, a_shape = shape,
                a_strides = (if order = CHR ''C'' then c_strides (isz dt) shape
                             else f_strides (isz dt) shape),
                a_data = alloc (allocated w)\<rparr>
      in (a, w\<lparr>allocated := allocated w @ [a]\<rparr>))"

subsection \<open>The dispatcher and what it is given\<close>

text \<open>
  A value of the dictionary \<^verbatim>\<open>self.functions\<close> (the field \<open>functions_tab\<close>).
  The three ctypes entries of the tuple are used by
  \<^verbatim>\<open>run_ufunc_ctypes\<close> only, which nothing calls, and are left out. A function pointer
  is the integer address of native code.
\<close>

type_synonym fptr = nat

record kernel_bundle =
  function_pointers :: "fptr \<times> fptr \<times> fptr \<times> fptr"
  result_dtype :: dtype

record dispatcher =
  functions_tab :: "dtype list \<times> nat \<rightharpoonup> kernel_bundle"
  nin :: nat

text \<open>
  What the module takes from elsewhere and the sources do not contain, as parameters:
  \<^verbatim>\<open>_internal.get_arrays_ordering\<close> and the \<^verbatim>\<open>_internal\<close> flag constants,
  \<^verbatim>\<open>is_broadcasting\<close> of \<^verbatim>\<open>miniutils.pyx\<close>, the behaviour of the native code at a
  function pointer (given the shape buffer and the stride rows it will read), and
  NumPy's item sizes and allocator.
\<close>

record ('m, 'e) env =
  get_arrays_ordering :: "ndarray list \<Rightarrow> nat"
  ARRAY_C_ORDER :: nat
  ARRAYS_ARE_CONTIG :: nat
  ARRAYS_ARE_INNER_CONTIG :: nat
  ARRAYS_ARE_MIXED_CONTIG :: nat
  ARRAYS_ARE_MIXED_STRIDED :: nat
  is_broadcasting :: "ndarray list \<Rightarrow> npy_intp list \<Rightarrow> bool"
  native :: "fptr \<Rightarrow> npy_intp list \<Rightarrow> npy_intp list list \<Rightarrow> ('m, 'e) minifunc"
  itemsize :: "dtype \<Rightarrow> npy_intp"
  allocator :: "ndarray list \<Rightarrow> npy_intp"

text \<open>
  The exceptions of a call: \<^verbatim>\<open>TypeError("Expected %d input arguments, got %d")\<close> is
  \<open>ArityError\<close>, the \<^verbatim>\<open>ValueError\<close> of \<^verbatim>\<open>np.broadcast\<close> is \<open>ShapeMismatch\<close>,
  \<^verbatim>\<open>ValueError("No signature found for %s")\<close> is \<open>UnsupportedSignature\<close>, and
  \<open>KernelFailure\<close> carries the exception a kernel has set. \<open>LoopCounterOverflow\<close> is
  no exception: it marks a call whose executor overflowed an \<^verbatim>\<open>int\<close> loop counter,
  where the behaviour of the program is undefined.
\<close>

datatype 'e error =
    ArityError nat nat
  | ShapeMismatch
  | UnsupportedSignature "dtype list"
  | KernelFailure 'e
  | LoopCounterOverflow

subsection \<open>\<^verbatim>\<open>broadcast_arrays\<close> and \<^verbatim>\<open>build_dynamic_args\<close>\<close>

text \<open>
  Modelled from the spec: \<^verbatim>\<open>broadcast_arrays\<close> of \<^verbatim>\<open>miniutils.pyx\<close>, which is not
  among the sources. The specification's BroadcastPlan: the shape buffer holds the
  unified shape, and every operand gets a stride vector of \<open>ndim\<close> entries, "shorter
  operand shapes are logically left-padded with extent 1 and stride 0", and "an extent
  of 1 in an operand dimension always pairs with stride 0".
\<close>

definition broadcast_strides :: "nat \<Rightarrow> ndarray \<Rightarrow> npy_intp list" where
  "broadcast_strides ndim a =
     replicate (ndim - length (a_shape a)) 0 @
     map (\<lambda>(e, st). if e = 1 then 0 else st) (zip (a_shape a) (a_strides a))"

definition broadcast_arrays ::
  "ndarray list \<Rightarrow> npy_intp list \<Rightarrow> nat \<Rightarrow> npy_intp list \<times> npy_intp list list" where
  "broadcast_arrays arrays shape ndim = (take ndim shape, map (broadcast_strides ndim) arrays)"

text \<open>
  Modelled from the spec: \<^verbatim>\<open>build_dynamic_args\<close> of \<^verbatim>\<open>miniutils.pyx\<close>, which is not
  among the sources. The specification's ExecutionScratch: the per-operand data-pointer
  buffer holds each operand's raw data pointer, and each stride pointer points at the
  start of that operand's stride vector.
\<close>

definition build_dynamic_args ::
  "ndarray list \<Rightarrow> npy_intp list list \<Rightarrow> nat \<Rightarrow> npy_intp list \<times> nat list" where
  "build_dynamic_args arrays strides_p ndim =
     (map a_data arrays, replicate (length arrays) 0)"

subsection \<open>\<^verbatim>\<open>run_ufunc\<close>\<close>

text \<open>
  \<^verbatim>\<open>if contig and ndim > 3: for i in range(3, ndim): shape_p[0] *= shape_p[i]\<close>
\<close>

definition collapse :: "bool \<Rightarrow> nat \<Rightarrow> npy_intp list \<Rightarrow> npy_intp list" where
  "collapse contig ndim shape_p =
     (if contig \<and> ndim > 3
      then fold (\<lambda>i sh. sh[0 := sh ! 0 * sh ! i]) [3..<ndim] shape_p
      else shape_p)"

text \<open>
  \<^verbatim>\<open>run_ufunc\<close> has no \<^verbatim>\<open>return\<close> statement: when the executor returns, the result is
  Python's \<^verbatim>\<open>None\<close>, here the \<open>None\<close> of \<open>ndarray option\<close>. The \<^verbatim>\<open>finally\<close> block frees
  the four scratch buffers when the executor returns and when it raises, so nothing of
  the scratch state but the memory the kernels wrote survives.
\<close>

definition run_ufunc ::
  "('m, 'e) env \<Rightarrow> fptr \<Rightarrow> npy_intp list \<Rightarrow> nat \<Rightarrow> ndarray \<Rightarrow> ndarray list \<Rightarrow> bool \<Rightarrow>
   'm world \<Rightarrow> ('e error + ndarray option) \<times> 'm world" where
  "run_ufunc E function_pointer broadcast_shape ndim out arrays contig w =
     (let arrays = out # arrays;
          (shape_p, strides_p) = broadcast_arrays arrays broadcast_shape ndim;
          (data_ptrs, strides_args) = build_dynamic_args arrays strides_p ndim;
          shape_p = collapse contig ndim shape_p
      in case run_higher_dimensional (native E function_pointer shape_p strides_p)
                shape_p strides_p ndim (length arrays) 0
                \<lparr>data_pointers = data_ptrs, strides = strides_args, mem = contents w\<rparr> of
           (Some (Raised e), s) \<Rightarrow> (Inl (KernelFailure e), w\<lparr>contents := mem s\<rparr>)
         | (Some CounterOverflow, s) \<Rightarrow> (Inl LoopCounterOverflow, w\<lparr>contents := mem s\<rparr>)
         | (None, s) \<Rightarrow> (Inr None, w\<lparr>contents := mem s\<rparr>))"

subsection \<open>\<^verbatim>\<open>__call__\<close>\<close>

text \<open>
  The choice of lines 103 to 127: the flags of the inputs' ordering and
  \<open>any_broadcasting\<close> give \<open>contig\<close> and one of the four function pointers.
\<close>

datatype strategy = Contig | InnerContig | Tiled | Strided

definition select_strategy :: "('m, 'e) env \<Rightarrow> nat \<Rightarrow> bool \<Rightarrow> strategy" where
  "select_strategy E order any_broadcasting =
     (let contig = (order AND ARRAYS_ARE_CONTIG E \<noteq> 0 \<and> \<not> any_broadcasting);
          inner_contig = (order AND ARRAYS_ARE_INNER_CONTIG E \<noteq> 0);
          tiled = (order AND (ARRAYS_ARE_MIXED_CONTIG E OR ARRAYS_ARE_MIXED_STRIDED E) \<noteq> 0)
      in if contig then Contig
         else if inner_contig then InnerContig
         else if tiled then Tiled
         else Strided)"

fun pick :: "strategy \<Rightarrow> fptr \<times> fptr \<times> fptr \<times> fptr \<Rightarrow> fptr" where
  "pick Contig (contig_func, inner_contig_func, tiled_func, strided_func) = contig_func"
| "pick InnerContig (contig_func, inner_contig_func, tiled_func, strided_func) =
     inner_contig_func"
| "pick Tiled (contig_func, inner_contig_func, tiled_func, strided_func) = tiled_func"
| "pick Strided (contig_func, inner_contig_func, tiled_func, strided_func) = strided_func"

text \<open>
  \<^verbatim>\<open>__call__(self, *args, out=None)\<close>, with the arguments already arrays
  (\<^verbatim>\<open>np.asarray\<close> is the identity on them). The ordering is taken from the inputs
  alone; \<open>broadcast_args\<close> has the output appended only when the caller gave one. The
  value returned is the value of \<^verbatim>\<open>run_ufunc\<close>.
\<close>

definition call ::
  "('m, 'e) env \<Rightarrow> dispatcher \<Rightarrow> ndarray list \<Rightarrow> ndarray option \<Rightarrow> 'm world \<Rightarrow>
   ('e error + ndarray option) \<times> 'm world" where
  "call E self args out w =
     (if length args \<noteq> nin self then (Inl (ArityError (nin self) (length args)), w)
      else
        let arg_types = map a_dtype args;
            order = get_arrays_ordering E args;
            broadcast_args = (case out of None \<Rightarrow> args | Some given \<Rightarrow> args @ [given])
        in case np_broadcast (map a_shape broadcast_args) of
             None \<Rightarrow> (Inl ShapeMismatch, w)
           | Some broadcast_shape \<Rightarrow>
               (let ndim = length broadcast_shape;
                    key = (arg_types, ndim)
                in case functions_tab self key of
                     None \<Rightarrow> (Inl (UnsupportedSignature arg_types), w)
                   | Some b \<Rightarrow>
                       (let (out', w') =
                              (case out of
                                 None \<Rightarrow>
                                   np_empty (itemsize E) (allocator E) broadcast_shape
                                     (result_dtype b)
                                     (if order AND ARRAY_C_ORDER E \<noteq> 0
                                      then CHR ''C'' else CHR ''F'') w
                               | Some given \<Rightarrow> (given, w));
                            any_broadcasting = is_broadcasting E broadcast_args broadcast_shape;
                            st = select_strategy E order any_broadcasting;
                            function_pointer = pick st (function_pointers b)
                        in run_ufunc E function_pointer broadcast_shape ndim out' args
                             (st = Contig) w')))"


subsection \<open>A concrete environment\<close>

text \<open>
  Modelled from the spec: \<^verbatim>\<open>_internal.get_arrays_ordering\<close> and its flag constants,
  which are not among the sources. The Layout Classifier of the specification, on the
  arrays it is given: "fully contiguous" when every operand's strides are the row-major
  strides of its shape (the preferred order is then row-major) or every operand's
  strides are the column-major ones; "inner-contiguous" when every operand has unit
  stride, one item, in its last dimension; otherwise strided. The flags are distinct
  bits.
\<close>

definition classify :: "(dtype \<Rightarrow> npy_intp) \<Rightarrow> ndarray list \<Rightarrow> nat" where
  "classify isz args =
     (if list_all (\<lambda>a. a_strides a = c_strides (isz (a_dtype a)) (a_shape a)) args
      then 2 OR 1
      else if list_all (\<lambda>a. a_strides a = f_strides (isz (a_dtype a)) (a_shape a)) args
      then 2
      else if list_all (\<lambda>a. a_strides a \<noteq> [] \<and> last (a_strides a) = isz (a_dtype a)) args
      then 4 OR 1
      else 0)"

text \<open>
  Modelled from the spec: \<^verbatim>\<open>is_broadcasting\<close> of \<^verbatim>\<open>miniutils.pyx\<close>, which is not
  among the sources. A broadcast dimension is present when some operand's shape is not
  the unified shape: it has fewer dimensions, or an extent 1 where the unified extent
  is greater.
\<close>

definition shapes_differ :: "ndarray list \<Rightarrow> npy_intp list \<Rightarrow> bool" where
  "shapes_differ arrays broadcast_shape = list_ex (\<lambda>a. a_shape a \<noteq> broadcast_shape) arrays"

text \<open>
  An environment for running the model on concrete arrays, given the behaviour of the
  native code: the classifier and \<open>is_broadcasting\<close> as above, items of 8 bytes and
  an allocator that hands out a fresh address per allocation.
\<close>

definition model_env ::
  "(fptr \<Rightarrow> npy_intp list \<Rightarrow> npy_intp list list \<Rightarrow> ('m, 'e) minifunc) \<Rightarrow> ('m, 'e) env" where
  "model_env code =
     \<lparr>get_arrays_ordering = classify (\<lambda>dt. 8),
      ARRAY_C_ORDER = 1,
      ARRAYS_ARE_CONTIG = 2,
      ARRAYS_ARE_INNER_CONTIG = 4,
      ARRAYS_ARE_MIXED_CONTIG = 16,
      ARRAYS_ARE_MIXED_STRIDED = 64,
      is_broadcasting = shapes_differ,
      native = code,
      itemsize = (\<lambda>dt. 8),
      allocator = (\<lambda>allocs. 4096 * (1 + of_nat (length allocs)))\<rparr>"

text \<open>
  Native code that does nothing but record, per invocation, its own address and its
  arguments.
\<close>

definition test_env :: "((fptr \<times> kcall) list, string) env" where
  "test_env = model_env (\<lambda>fp shape rows c log. (None, log @ [(fp, c)]))"

text \<open>
  A dispatcher of one input, registered for \<open>float64\<close> arrays of one and of two
  dimensions, with the native code of its four variants at the addresses 10 to 13.
\<close>

definition test_dispatcher :: dispatcher where
  "test_dispatcher =
     \<lparr>functions_tab =
        [([''float64''], 1) \<mapsto> \<lparr>function_pointers = (10, 11, 12, 13), result_dtype = ''float64''\<rparr>,
         ([''float64''], 2) \<mapsto> \<lparr>function_pointers = (10, 11, 12, 13), result_dtype = ''float64''\<rparr>],
      nin = 1\<rparr>"

text \<open>The same dispatcher, registered for four dimensions as well.\<close>

definition wide_dispatcher :: dispatcher where
  "wide_dispatcher =
     \<lparr>functions_tab =
        (functions_tab test_dispatcher)
          (([''float64''], 4) \<mapsto>
             \<lparr>function_pointers = (10, 11, 12, 13), result_dtype = ''float64''\<rparr>),
      nin = 1\<rparr>"

text \<open>A kernel that fails with a domain error at one set of data pointers.\<close>

definition failing_kernel :: "npy_intp list \<Rightarrow> (kcall list, string) minifunc" where
  "failing_kernel bad c log =
     (if data_arg c = bad then (Some ''domain error'', log) else (None, log @ [c]))"

text \<open>The address of the element of an array at a full index.\<close>

definition element_address :: "ndarray \<Rightarrow> nat list \<Rightarrow> npy_intp" where
  "element_address a idx = a_data a + index_offset (a_strides a) 0 idx"

section \<open>The executor invokes the kernel on the expected leaf calls\<close>

lemma for_ops_prefix:
  "k \<le> length xs \<Longrightarrow>
   fold (\<lambda>j ys. ys[j := f j (ys ! j)]) [0..<k] xs = map (\<lambda>j. f j (xs ! j)) [0..<k] @ drop k xs"
proof (induction k)
  case 0
  then show ?case by simp
next
  case (Suc k)
  then have k: "k < length xs" by simp
  have "fold (\<lambda>j ys. ys[j := f j (ys ! j)]) [0..<Suc k] xs
        = (map (\<lambda>j. f j (xs ! j)) [0..<k] @ drop k xs)
            [k := f k ((map (\<lambda>j. f j (xs ! j)) [0..<k] @ drop k xs) ! k)]"
    using Suc by simp
  also have "(map (\<lambda>j. f j (xs ! j)) [0..<k] @ drop k xs) ! k = xs ! k"
    using k by (simp add: nth_append)
  also have "(map (\<lambda>j. f j (xs ! j)) [0..<k] @ drop k xs)[k := f k (xs ! k)]
             = map (\<lambda>j. f j (xs ! j)) [0..<k] @ (drop k xs)[0 := f k (xs ! k)]"
    by (simp add: list_update_append)
  also have "(drop k xs)[0 := f k (xs ! k)] = f k (xs ! k) # drop (Suc k) xs"
    using k by (simp add: Cons_nth_drop_Suc [symmetric])
  finally show ?case by simp
qed

lemma for_ops_map: "length xs = n \<Longrightarrow> for_ops n f xs = map (\<lambda>j. f j (xs ! j)) [0..<n]"
  unfolding for_ops_def using for_ops_prefix [of n xs f] by simp

lemma run_leaves_append:
  "run_leaves k (xs @ ys) m =
     (case run_leaves k xs m of (None, m') \<Rightarrow> run_leaves k ys m' | (Some ec, m') \<Rightarrow> (Some ec, m'))"
  by (induction xs arbitrary: m) (auto split: prod.splits option.splits)

declare run_higher_dimensional.simps [simp del]

lemma length_advanced [simp]: "length (advanced rows offs d i dps) = length dps"
  by (simp add: advanced_def)

lemma advanced_0 [simp]: "advanced rows offs d 0 dps = dps"
  by (simp add: advanced_def map_nth)

lemma leaf_call_Cons:
  "leaf_call rows offs dps d (i # idx) = leaf_call rows offs (advanced rows offs d i dps) (Suc d) idx"
  by (simp add: leaf_call_def advanced_def add.assoc)

lemma outer_extents_Suc:
  "outer_extents shape d (Suc n) = nat (sint (shape ! d)) # outer_extents shape (Suc d) n"
proof -
  have "[0..<Suc n] = 0 # map Suc [0..<n]"
    by (simp add: upt_conv_Cons map_Suc_upt del: upt_Suc)
  then show ?thesis
    by (simp add: outer_extents_def comp_def del: upt_Suc)
qed

lemma leaf_calls_step:
  assumes "2 < ndim"
  shows "leaf_calls shape rows offs dps ndim d =
         concat (map (\<lambda>i. leaf_calls shape rows offs (advanced rows offs d i dps) (ndim - 1) (Suc d))
                   [0..<nat (sint (shape ! d))])"
proof -
  from assms obtain n where n: "ndim - 2 = Suc n" "ndim - 1 - 2 = n"
    by (cases "ndim - 2") auto
  show ?thesis
    unfolding leaf_calls_def n outer_extents_Suc
    by (simp add: map_concat comp_def leaf_call_Cons)
qed

lemma leaf_calls_base:
  assumes "ndim \<le> 2"
  shows "leaf_calls shape rows offs dps ndim d =
         [\<lparr>shape_arg = d, data_arg = dps, strides_arg = map (\<lambda>p. p + d) offs\<rparr>]"
  using assms by (simp add: leaf_calls_def outer_extents_def leaf_call_def map_nth)

lemma offsets_restored:
  "length offs = n \<Longrightarrow> for_ops n (\<lambda>j p. p - d) (map (\<lambda>p. p + d) offs) = (offs :: nat list)"
  by (auto simp: for_ops_map intro!: nth_equalityI)

lemma offsets_shifted:
  "length offs = n \<Longrightarrow> for_ops n (\<lambda>j p. p + d) offs = map (\<lambda>p. p + d) (offs :: nat list)"
  by (auto simp: for_ops_map intro!: nth_equalityI)

lemma run_base:
  assumes "ndim \<le> 2" and "length (strides s) = n_ops"
  shows "run_higher_dimensional k shape rows ndim n_ops d s =
         settle s (run_leaves k (leaf_calls shape rows (strides s) (data_pointers s) ndim d) (mem s))"
proof (cases "d = 0")
  case True
  with assms show ?thesis
    by (cases s) (simp add: run_higher_dimensional.simps leaf_calls_base split: prod.splits option.splits)
next
  case False
  with assms show ?thesis
    by (cases s)
       (simp add: run_higher_dimensional.simps leaf_calls_base offsets_shifted
               offsets_restored
             split: prod.splits option.splits)
qed

lemma advanced_step:
  assumes "length dps = n_ops"
  shows "for_ops n_ops (\<lambda>j p. p + rows ! j ! (offs ! j + d)) (advanced rows offs d i dps)
         = advanced rows offs d (Suc i) dps"
  using assms by (simp add: for_ops_map advanced_def distrib_right add.assoc)

lemma advanced_rewind:
  assumes "length dps = n_ops" and "of_nat c = x"
  shows "for_ops n_ops (\<lambda>j p. p - x * rows ! j ! (offs ! j + d)) (advanced rows offs d c dps) = dps"
  using assms by (auto simp: for_ops_map advanced_def intro!: nth_equalityI)

declare outer_loop.simps [simp del]

lemma outer_loop_done:
  "\<not> i < sint bound \<Longrightarrow> outer_loop k shape rows nd n_ops d bound i s = (None, s)"
  by (simp add: outer_loop.simps)

lemma outer_loop_step:
  "int i < sint bound \<Longrightarrow> i < 2147483647 \<Longrightarrow>
   outer_loop k shape rows nd n_ops d bound (int i) s =
     (case run_higher_dimensional k shape rows nd n_ops (Suc d) s of
        (Some f, s') \<Rightarrow> (Some f, s')
      | (None, s') \<Rightarrow>
          outer_loop k shape rows nd n_ops d bound (int (Suc i))
            (s'\<lparr>data_pointers :=
                  for_ops n_ops (\<lambda>j p. p + rows ! j ! (strides s' ! j + d))
                    (data_pointers s')\<rparr>))"
  by (subst outer_loop.simps) (simp add: Let_def add.commute split: prod.splits option.splits)

lemma outer_loop_spec:
  assumes IH: "\<And>t. length (data_pointers t) = n_ops \<Longrightarrow> length (strides t) = n_ops \<Longrightarrow>
          run_higher_dimensional k shape rows nd n_ops (Suc d) t =
          settle t (run_leaves k
                     (leaf_calls shape rows (strides t) (data_pointers t) nd (Suc d)) (mem t))"
    and len: "length dps = n_ops" "length offs = n_ops"
    and fits: "sint bound \<le> 2147483647"
  shows "i0 + c = nat (sint bound) \<Longrightarrow>
         outer_loop k shape rows nd n_ops d bound (int i0)
           \<lparr>data_pointers = advanced rows offs d i0 dps, strides = offs, mem = m\<rparr> =
         (case run_leaves k
                 (concat (map (\<lambda>i. leaf_calls shape rows offs (advanced rows offs d i dps) nd (Suc d))
                            [i0..<i0 + c])) m of
            (None, m') \<Rightarrow>
              (None, \<lparr>data_pointers = advanced rows offs d (i0 + c) dps, strides = offs, mem = m'\<rparr>)
          | (Some (e, cl), m') \<Rightarrow>
              (Some (Raised e),
               \<lparr>data_pointers = data_arg cl, strides = strides_arg cl, mem = m'\<rparr>))"
proof (induction c arbitrary: i0 m)
  case 0
  then have "\<not> int i0 < sint bound" by simp
  then show ?case by (simp add: outer_loop_done)
next
  case (Suc c)
  let ?t = "\<lparr>data_pointers = advanced rows offs d i0 dps, strides = offs, mem = m\<rparr>"
  let ?here = "leaf_calls shape rows offs (advanced rows offs d i0 dps) nd (Suc d)"
  have split_range: "[i0..<i0 + Suc c] = i0 # [Suc i0..<i0 + Suc c]"
    by (simp add: upt_conv_Cons del: upt_Suc)
  have shift: "Suc i0 + c = i0 + Suc c"
    by simp
  have enter: "int i0 < sint bound" and small: "i0 < 2147483647"
    using Suc.prems fits by linarith+
  have next_count: "Suc i0 + c = nat (sint bound)"
    using Suc.prems by simp
  have inner: "run_higher_dimensional k shape rows nd n_ops (Suc d) ?t =
               settle ?t (run_leaves k ?here m)"
    using IH [of ?t] len by simp
  show ?case
  proof (cases "run_leaves k ?here m")
    case (Pair r m')
    show ?thesis
    proof (cases r)
      case None
      with Pair inner Suc.IH [OF next_count, of m', unfolded shift] len show ?thesis
        unfolding split_range outer_loop_step [OF enter small]
        by (simp add: run_leaves_append advanced_step del: upt_Suc)
    next
      case (Some ec)
      with Pair inner show ?thesis
        unfolding split_range outer_loop_step [OF enter small]
        by (cases ec) (simp add: run_leaves_append del: upt_Suc)
    qed
  qed
qed

lemma executor_spec:
  "length (data_pointers s) = n_ops \<Longrightarrow> length (strides s) = n_ops \<Longrightarrow>
   (\<forall>j<ndim - 2. 0 \<le> sint (shape ! (d + j)) \<and> sint (shape ! (d + j)) \<le> 2147483647) \<Longrightarrow>
   run_higher_dimensional k shape rows ndim n_ops d s =
   settle s (run_leaves k (leaf_calls shape rows (strides s) (data_pointers s) ndim d) (mem s))"
proof (induction ndim arbitrary: d s)
  case 0
  then show ?case by (simp add: run_base)
next
  case (Suc n)
  show ?case
  proof (cases "Suc n \<le> 2")
    case True
    with Suc.prems show ?thesis by (simp add: run_base)
  next
    case False
    then have big: "2 < Suc n" by simp
    have here: "0 \<le> sint (shape ! d) \<and> sint (shape ! d) \<le> 2147483647"
      using Suc.prems(3) big by (metis add.right_neutral zero_less_diff)
    have deeper: "\<forall>j<n - 2. 0 \<le> sint (shape ! (Suc d + j)) \<and> sint (shape ! (Suc d + j)) \<le> 2147483647"
    proof (intro allI impI)
      fix j assume "j < n - 2"
      then have "Suc j < Suc n - 2" by simp
      with Suc.prems(3)
      have "0 \<le> sint (shape ! (d + Suc j)) \<and> sint (shape ! (d + Suc j)) \<le> 2147483647"
        by blast
      then show "0 \<le> sint (shape ! (Suc d + j)) \<and> sint (shape ! (Suc d + j)) \<le> 2147483647"
        by simp
    qed
    have inner: "\<And>t. length (data_pointers t) = n_ops \<Longrightarrow> length (strides t) = n_ops \<Longrightarrow>
          run_higher_dimensional k shape rows n n_ops (Suc d) t =
          settle t (run_leaves k
                     (leaf_calls shape rows (strides t) (data_pointers t) n (Suc d)) (mem t))"
      using Suc.IH deeper by blast
    let ?c = "nat (sint (shape ! d))"
    have s_eq: "s = \<lparr>data_pointers = advanced rows (strides s) d 0 (data_pointers s),
                     strides = strides s, mem = mem s\<rparr>"
      by (cases s) simp
    have fits: "sint (shape ! d) \<le> 2147483647"
      using here by simp
    have count: "0 + ?c = nat (sint (shape ! d))"
      by simp
    have loop: "outer_loop k shape rows n n_ops d (shape ! d) 0 s =
         (case run_leaves k (leaf_calls shape rows (strides s) (data_pointers s) (Suc n) d) (mem s) of
            (None, m') \<Rightarrow>
              (None, \<lparr>data_pointers = advanced rows (strides s) d ?c (data_pointers s),
                      strides = strides s, mem = m'\<rparr>)
          | (Some (e, cl), m') \<Rightarrow>
              (Some (Raised e),
               \<lparr>data_pointers = data_arg cl, strides = strides_arg cl, mem = m'\<rparr>))"
      using outer_loop_spec [where k = k and shape = shape and rows = rows and nd = n
              and n_ops = n_ops and d = d and dps = "data_pointers s" and offs = "strides s"
              and c = ?c and ?i0.0 = 0 and m = "mem s" and bound = "shape ! d",
              OF inner Suc.prems(1) Suc.prems(2) fits count, unfolded add_0 int_ops(1)]
      by (subst s_eq) (simp add: leaf_calls_step [OF big])
    have count_eq: "of_nat ?c = shape ! d"
      using here by simp
    show ?thesis
    proof (cases "run_leaves k (leaf_calls shape rows (strides s) (data_pointers s) (Suc n) d) (mem s)")
      case (Pair r m')
      show ?thesis
      proof (cases r)
        case None
        with Pair loop big Suc.prems(1) count_eq show ?thesis
          by (cases s) (simp add: run_higher_dimensional.simps [of _ _ _ "Suc n"] advanced_rewind)
      next
        case (Some ec)
        with Pair loop big show ?thesis
          by (cases ec) (simp add: run_higher_dimensional.simps [of _ _ _ "Suc n"])
      qed
    qed
  qed
qed

subsection \<open>\<^verbatim>\<open>run_ufunc\<close> and \<^verbatim>\<open>__call__\<close> in terms of the leaf calls\<close>

lemma run_ufunc_unfold:
  "run_ufunc E fp bshape ndim out arrays contig w =
     (case run_higher_dimensional
             (native E fp (collapse contig ndim (take ndim bshape))
                (map (broadcast_strides ndim) (out # arrays)))
             (collapse contig ndim (take ndim bshape))
             (map (broadcast_strides ndim) (out # arrays)) ndim (Suc (length arrays)) 0
             \<lparr>data_pointers = map a_data (out # arrays),
              strides = replicate (Suc (length arrays)) 0, mem = contents w\<rparr> of
        (Some (Raised e), s) \<Rightarrow> (Inl (KernelFailure e), w\<lparr>contents := mem s\<rparr>)
      | (Some CounterOverflow, s) \<Rightarrow> (Inl LoopCounterOverflow, w\<lparr>contents := mem s\<rparr>)
      | (None, s) \<Rightarrow> (Inr None, w\<lparr>contents := mem s\<rparr>))"
  by (simp add: run_ufunc_def broadcast_arrays_def build_dynamic_args_def Let_def)

lemma run_ufunc_spec:
  assumes "\<forall>j<ndim - 2. 0 \<le> sint (collapse contig ndim (take ndim bshape) ! j)
             \<and> sint (collapse contig ndim (take ndim bshape) ! j) \<le> 2147483647"
  shows "run_ufunc E fp bshape ndim out arrays contig w =
     (case run_leaves
             (native E fp (collapse contig ndim (take ndim bshape))
                (map (broadcast_strides ndim) (out # arrays)))
             (leaf_calls (collapse contig ndim (take ndim bshape))
                (map (broadcast_strides ndim) (out # arrays))
                (replicate (Suc (length arrays)) 0) (map a_data (out # arrays)) ndim 0)
             (contents w) of
        (Some (e, c), m') \<Rightarrow> (Inl (KernelFailure e), w\<lparr>contents := m'\<rparr>)
      | (None, m') \<Rightarrow> (Inr None, w\<lparr>contents := m'\<rparr>))"
proof -
  let ?s = "\<lparr>data_pointers = map a_data (out # arrays),
              strides = replicate (Suc (length arrays)) 0, mem = contents w\<rparr>"
  have "run_higher_dimensional
             (native E fp (collapse contig ndim (take ndim bshape))
                (map (broadcast_strides ndim) (out # arrays)))
             (collapse contig ndim (take ndim bshape))
             (map (broadcast_strides ndim) (out # arrays)) ndim (Suc (length arrays)) 0 ?s
        = settle ?s (run_leaves
             (native E fp (collapse contig ndim (take ndim bshape))
                (map (broadcast_strides ndim) (out # arrays)))
             (leaf_calls (collapse contig ndim (take ndim bshape))
                (map (broadcast_strides ndim) (out # arrays))
                (strides ?s) (data_pointers ?s) ndim 0)
             (mem ?s))"
    using assms by (intro executor_spec) simp_all
  then show ?thesis
    unfolding run_ufunc_unfold
    by (auto split: prod.splits option.splits)
qed

lemma run_ufunc_result:
  "fst (run_ufunc E fp bshape ndim out arrays contig w) = Inr None
   \<or> fst (run_ufunc E fp bshape ndim out arrays contig w) = Inl LoopCounterOverflow
   \<or> (\<exists>e. fst (run_ufunc E fp bshape ndim out arrays contig w) = Inl (KernelFailure e))"
  unfolding run_ufunc_unfold by (auto split: prod.splits option.splits fault.splits)

lemma fold_collapse:
  "0 < a \<Longrightarrow>
   fold (\<lambda>i sh. sh[0 := sh ! 0 * sh ! i]) [a..<b] (sh :: npy_intp list) =
   sh[0 := sh ! 0 * prod_list (map (\<lambda>i. sh ! i) [a..<b])]"
proof (induction b)
  case 0
  then show ?case by simp
next
  case (Suc b)
  show ?case
  proof (cases "a \<le> b")
    case False
    then show ?thesis by simp
  next
    case True
    then have b: "b \<noteq> 0" using Suc.prems by simp
    show ?thesis
    proof (cases sh)
      case Nil
      with Suc True show ?thesis by simp
    next
      case (Cons x xs)
      with True Suc b show ?thesis
        by (simp add: mult.assoc)
    qed
  qed
qed

lemma collapse_closed_form:
  "collapse contig ndim shape_p =
     (if contig \<and> 3 < ndim
      then shape_p[0 := shape_p ! 0 * prod_list (map (\<lambda>i. shape_p ! i) [3..<ndim])]
      else shape_p)"
  by (simp add: collapse_def fold_collapse)

lemma collapse_length: "length (collapse contig ndim shape_p) = length shape_p"
  by (simp add: collapse_closed_form)

lemma collapse_nth: "0 < i \<Longrightarrow> collapse contig ndim shape_p ! i = shape_p ! i"
  by (simp add: collapse_closed_form)

lemma outer_extents_collapse:
  "outer_extents (collapse contig ndim shape_p) 0 n =
   (if n = 0 then [] else
    nat (sint (collapse contig ndim shape_p ! 0)) # map (\<lambda>j. nat (sint (shape_p ! j))) [1..<n])"
proof (cases n)
  case 0
  then show ?thesis by (simp add: outer_extents_def)
next
  case (Suc m)
  have "[0..<Suc m] = 0 # [1..<Suc m]"
    by (simp add: upt_conv_Cons del: upt_Suc)
  then show ?thesis
    unfolding Suc outer_extents_def
    by (simp add: collapse_nth del: upt_Suc)
qed

lemma call_dispatches:
  assumes "length args = nin self"
    and "np_broadcast (map a_shape (case out of None \<Rightarrow> args | Some given \<Rightarrow> args @ [given]))
         = Some bshape"
    and "functions_tab self (map a_dtype args, length bshape) = Some b"
    and "(case out of
            None \<Rightarrow> np_empty (itemsize E) (allocator E) bshape (result_dtype b)
                      (if get_arrays_ordering E args AND ARRAY_C_ORDER E \<noteq> 0
                       then CHR ''C'' else CHR ''F'') w
          | Some given \<Rightarrow> (given, w)) = (out', w')"
    and "st = select_strategy E (get_arrays_ordering E args)
                (is_broadcasting E (case out of None \<Rightarrow> args | Some given \<Rightarrow> args @ [given])
                   bshape)"
  shows "call E self args out w =
         run_ufunc E (pick st (function_pointers b)) bshape (length bshape) out' args
           (st = Contig) w'"
  using assms by (simp add: call_def Let_def)

lemma leaf_call_data:
  "j < length dps \<Longrightarrow>
   data_arg (leaf_call rows offs dps d idx) ! j =
   dps ! j + index_offset (rows ! j) (offs ! j + d) idx"
  by (simp add: leaf_call_def)

lemma call_leaf_calls:
  assumes "length args = nin self"
    and "np_broadcast (map a_shape (case out of None \<Rightarrow> args | Some given \<Rightarrow> args @ [given]))
         = Some broadcast_shape"
    and "functions_tab self (map a_dtype args, length broadcast_shape) = Some b"
    and "(case out of
            None \<Rightarrow> np_empty (itemsize E) (allocator E) broadcast_shape (result_dtype b)
                      (if get_arrays_ordering E args AND ARRAY_C_ORDER E \<noteq> 0
                       then CHR ''C'' else CHR ''F'') w
          | Some given \<Rightarrow> (given, w)) = (out', w')"
    and "st = select_strategy E (get_arrays_ordering E args)
                (is_broadcasting E (case out of None \<Rightarrow> args | Some given \<Rightarrow> args @ [given])
                   broadcast_shape)"
    and "ndim = length broadcast_shape"
    and "shape_p = collapse (st = Contig) ndim broadcast_shape"
    and "rows = map (broadcast_strides ndim) (out' # args)"
    and "\<forall>j<ndim - 2. 0 \<le> sint (shape_p ! j) \<and> sint (shape_p ! j) \<le> 2147483647"
  shows "call E self args out w =
           (case run_leaves (native E (pick st (function_pointers b)) shape_p rows)
                   (map (leaf_call rows (replicate (Suc (length args)) 0)
                           (map a_data (out' # args)) 0)
                      (index_vectors (map (\<lambda>j. nat (sint (shape_p ! j))) [0..<ndim - 2])))
                   (contents w') of
              (Some (e, c), m') \<Rightarrow> (Inl (KernelFailure e), w'\<lparr>contents := m'\<rparr>)
            | (None, m') \<Rightarrow> (Inr None, w'\<lparr>contents := m'\<rparr>))
         \<and> (\<forall>idx. \<forall>j<Suc (length args).
               data_arg (leaf_call rows (replicate (Suc (length args)) 0)
                           (map a_data (out' # args)) 0 idx) ! j =
               a_data ((out' # args) ! j) + index_offset (rows ! j) 0 idx)"
proof -
  have whole: "take ndim broadcast_shape = broadcast_shape"
    using assms(6) by simp
  have bounds: "\<forall>j<ndim - 2. 0 \<le> sint (collapse (st = Contig) ndim (take ndim broadcast_shape) ! j)
             \<and> sint (collapse (st = Contig) ndim (take ndim broadcast_shape) ! j) \<le> 2147483647"
    using assms(9) unfolding whole assms(7) .
  have "call E self args out w =
        run_ufunc E (pick st (function_pointers b)) broadcast_shape ndim out' args (st = Contig) w'"
    unfolding assms(6) using assms(1-5) by (rule call_dispatches)
  also note run_ufunc_spec [OF bounds, of E "pick st (function_pointers b)" out' args w']
  finally have run: "call E self args out w =
           (case run_leaves (native E (pick st (function_pointers b)) shape_p rows)
                   (leaf_calls shape_p rows (replicate (Suc (length args)) 0)
                      (map a_data (out' # args)) ndim 0)
                   (contents w') of
              (Some (e, c), m') \<Rightarrow> (Inl (KernelFailure e), w'\<lparr>contents := m'\<rparr>)
            | (None, m') \<Rightarrow> (Inr None, w'\<lparr>contents := m'\<rparr>))"
    unfolding whole assms(7) [symmetric] assms(8) [symmetric] .
  have addr: "\<forall>idx. \<forall>j<Suc (length args).
               data_arg (leaf_call rows (replicate (Suc (length args)) 0)
                           (map a_data (out' # args)) 0 idx) ! j =
               a_data ((out' # args) ! j) + index_offset (rows ! j) 0 idx"
  proof (intro allI impI)
    fix idx j assume j: "j < Suc (length args)"
    then have len: "j < length (map a_data (out' # args))"
      by simp
    have a: "map a_data (out' # args) ! j = a_data ((out' # args) ! j)"
      using j by (intro nth_map) simp
    have r: "replicate (Suc (length args)) (0 :: nat) ! j = 0"
      using j by (rule nth_replicate)
    show "data_arg (leaf_call rows (replicate (Suc (length args)) 0)
                           (map a_data (out' # args)) 0 idx) ! j =
               a_data ((out' # args) ! j) + index_offset (rows ! j) 0 idx"
      using leaf_call_data [OF len, of rows "replicate (Suc (length args)) 0" 0 idx]
      unfolding a r add_0_right .
  qed
  from run addr show ?thesis
    by (simp add: leaf_calls_def outer_extents_def)
qed

section \<open>The leaf invocations of a call\<close>




section \<open>A failing kernel\<close>




section \<open>The dimension-collapsing step\<close>

text \<open>
  Claim C4. A call that reaches the executor runs it on the shape buffer \<open>shape_p\<close>,
  which is: when the contiguous specialization was selected and \<open>ndim\<close> exceeds 3, the
  unified shape with entry 0 replaced by the product, in \<^verbatim>\<open>npy_intp\<close> arithmetic, of
  entry 0 and the entries 3 to \<open>ndim - 1\<close>; and the unified shape itself when \<open>ndim\<close>
  is at most 3 or another specialization was selected.
\<close>

theorem collapse_before_executor:
  assumes "length args = nin self"
    and "np_broadcast (map a_shape (case out of None \<Rightarrow> args | Some given \<Rightarrow> args @ [given]))
         = Some broadcast_shape"
    and "functions_tab self (map a_dtype args, length broadcast_shape) = Some b"
    and "(case out of
            None \<Rightarrow> np_empty (itemsize E) (allocator E) broadcast_shape (result_dtype b)
                      (if get_arrays_ordering E args AND ARRAY_C_ORDER E \<noteq> 0
                       then CHR ''C'' else CHR ''F'') w
          | Some given \<Rightarrow> (given, w)) = (out', w')"
    and "st = select_strategy E (get_arrays_ordering E args)
                (is_broadcasting E (case out of None \<Rightarrow> args | Some given \<Rightarrow> args @ [given])
                   broadcast_shape)"
    and "ndim = length broadcast_shape"
    and "shape_p =
           (if st = Contig \<and> 3 < ndim
            then broadcast_shape
                   [0 := broadcast_shape ! 0 * prod_list (map (\<lambda>i. broadcast_shape ! i) [3..<ndim])]
            else broadcast_shape)"
    and "rows = map (broadcast_strides ndim) (out' # args)"
  shows "call E self args out w =
           (case run_higher_dimensional (native E (pick st (function_pointers b)) shape_p rows)
                   shape_p rows ndim (Suc (length args)) 0
                   \<lparr>data_pointers = map a_data (out' # args),
                    strides = replicate (Suc (length args)) 0, mem = contents w'\<rparr> of
              (Some (Raised e), s) \<Rightarrow> (Inl (KernelFailure e), w'\<lparr>contents := mem s\<rparr>)
            | (Some CounterOverflow, s) \<Rightarrow> (Inl LoopCounterOverflow, w'\<lparr>contents := mem s\<rparr>)
            | (None, s) \<Rightarrow> (Inr None, w'\<lparr>contents := mem s\<rparr>))"
proof -
  have whole: "take ndim broadcast_shape = broadcast_shape"
    using assms(6) by simp
  have buffer: "collapse (st = Contig) ndim (take ndim broadcast_shape) = shape_p"
    unfolding whole assms(7) by (rule collapse_closed_form)
  have "call E self args out w =
        run_ufunc E (pick st (function_pointers b)) broadcast_shape ndim out' args (st = Contig) w'"
    unfolding assms(6) using assms(1-5) by (rule call_dispatches)
  then show ?thesis
    unfolding run_ufunc_unfold buffer assms(8) .
qed

theorem collapse_before_executor_witness:
  "call test_env wide_dispatcher
     [\<lparr>a_dtype = ''float64'', a_shape = [2, 1, 1, 2], a_strides = [16, 16, 16, 8], a_data = 1000\<rparr>]
     None \<lparr>allocated = [], contents = []\<rparr> =
   (case run_higher_dimensional
           (native test_env 10 [4, 1, 1, 2] [[16, 0, 0, 8], [16, 0, 0, 8]])
           [4, 1, 1, 2] [[16, 0, 0, 8], [16, 0, 0, 8]] 4 2 0
           \<lparr>data_pointers = [4096, 1000], strides = [0, 0], mem = []\<rparr> of
      (Some (Raised e), s) \<Rightarrow>
        (Inl (KernelFailure e),
         \<lparr>allocated = [\<lparr>a_dtype = ''float64'', a_shape = [2, 1, 1, 2],
                        a_strides = [16, 16, 16, 8], a_data = 4096\<rparr>],
          contents = mem s\<rparr>)
    | (Some CounterOverflow, s) \<Rightarrow>
        (Inl LoopCounterOverflow,
         \<lparr>allocated = [\<lparr>a_dtype = ''float64'', a_shape = [2, 1, 1, 2],
                        a_strides = [16, 16, 16, 8], a_data = 4096\<rparr>],
          contents = mem s\<rparr>)
    | (None, s) \<Rightarrow>
        (Inr None,
         \<lparr>allocated = [\<lparr>a_dtype = ''float64'', a_shape = [2, 1, 1, 2],
                        a_strides = [16, 16, 16, 8], a_data = 4096\<rparr>],
          contents = mem s\<rparr>))
   \<and> call test_env test_dispatcher
     [\<lparr>a_dtype = ''float64'', a_shape = [3, 4], a_strides = [32, 8], a_data = 1000\<rparr>]
     (Some \<lparr>a_dtype = ''float64'', a_shape = [3, 4], a_strides = [32, 8], a_data = 2000\<rparr>)
     \<lparr>allocated = [], contents = []\<rparr> =
   (case run_higher_dimensional
           (native test_env 10 [3, 4] [[32, 8], [32, 8]])
           [3, 4] [[32, 8], [32, 8]] 2 2 0
           \<lparr>data_pointers = [2000, 1000], strides = [0, 0], mem = []\<rparr> of
      (Some (Raised e), s) \<Rightarrow> (Inl (KernelFailure e), \<lparr>allocated = [], contents = mem s\<rparr>)
    | (Some CounterOverflow, s) \<Rightarrow> (Inl LoopCounterOverflow, \<lparr>allocated = [], contents = mem s\<rparr>)
    | (None, s) \<Rightarrow> (Inr None, \<lparr>allocated = [], contents = mem s\<rparr>))"
proof -
  let ?a = "\<lparr>a_dtype = ''float64'', a_shape = [2, 1, 1, 2], a_strides = [16, 16, 16, 8],
             a_data = 1000\<rparr>"
  let ?o = "\<lparr>a_dtype = ''float64'', a_shape = [2, 1, 1, 2], a_strides = [16, 16, 16, 8],
             a_data = 4096\<rparr>"
  let ?w = "\<lparr>allocated = [], contents = [] :: (fptr \<times> kcall) list\<rparr>"
  let ?w' = "\<lparr>allocated = [?o], contents = [] :: (fptr \<times> kcall) list\<rparr>"
  let ?b = "\<lparr>function_pointers = (10, 11, 12, 13), result_dtype = ''float64''\<rparr>"
  have h1: "length [?a] = nin wide_dispatcher"
    by (simp add: wide_dispatcher_def)
  have h2: "np_broadcast (map a_shape (case None of None \<Rightarrow> [?a] | Some given \<Rightarrow> [?a] @ [given]))
            = Some [2, 1, 1, 2]"
    by code_simp
  have h3: "functions_tab wide_dispatcher (map a_dtype [?a], length [2, 1, 1, 2 :: npy_intp]) = Some ?b"
    by (simp add: wide_dispatcher_def)
  have h4: "(case None of
            None \<Rightarrow> np_empty (itemsize test_env) (allocator test_env) [2, 1, 1, 2] (result_dtype ?b)
                      (if get_arrays_ordering test_env [?a] AND ARRAY_C_ORDER test_env \<noteq> 0
                       then CHR ''C'' else CHR ''F'') ?w
          | Some given \<Rightarrow> (given, ?w)) = (?o, ?w')"
    by code_simp
  have h5: "Contig = select_strategy test_env (get_arrays_ordering test_env [?a])
                (is_broadcasting test_env (case None of None \<Rightarrow> [?a] | Some given \<Rightarrow> [?a] @ [given])
                   [2, 1, 1, 2])"
    by code_simp
  have h6: "4 = length [2, 1, 1, 2 :: npy_intp]"
    by simp
  have h7: "[4, 1, 1, 2] =
           (if Contig = Contig \<and> 3 < (4 :: nat)
            then [2, 1, 1, 2 :: npy_intp]
                   [0 := [2, 1, 1, 2] ! 0 * prod_list (map (\<lambda>i. [2, 1, 1, 2] ! i) [3..<4])]
            else [2, 1, 1, 2])"
    by (simp add: upt_conv_Cons)
  have h8: "[[16, 0, 0, 8], [16, 0, 0, 8]] = map (broadcast_strides 4) (?o # [?a])"
    by (simp add: broadcast_strides_def)
  have n1: "pick Contig (function_pointers ?b) = 10"
    and n2: "Suc (length [?a]) = 2"
    and n3: "map a_data (?o # [?a]) = [4096, 1000]"
    and n4: "replicate 2 (0 :: nat) = [0, 0]"
    and n5: "contents ?w' = []"
    and n6: "\<And>m. ?w'\<lparr>contents := m\<rparr> = \<lparr>allocated = [?o], contents = m\<rparr>"
    by (simp_all add: numeral_2_eq_2)
  note first = collapse_before_executor [OF h1 h2 h3 h4 h5 h6 h7 h8, unfolded n1 n2 n3 n4 n5 n6]
  let ?c = "\<lparr>a_dtype = ''float64'', a_shape = [3, 4], a_strides = [32, 8], a_data = 1000\<rparr>"
  let ?g = "\<lparr>a_dtype = ''float64'', a_shape = [3, 4], a_strides = [32, 8], a_data = 2000\<rparr>"
  have g1: "length [?c] = nin test_dispatcher"
    by (simp add: test_dispatcher_def)
  have g2: "np_broadcast (map a_shape (case Some ?g of None \<Rightarrow> [?c] | Some given \<Rightarrow> [?c] @ [given]))
            = Some [3, 4]"
    by code_simp
  have g3: "functions_tab test_dispatcher (map a_dtype [?c], length [3, 4 :: npy_intp]) = Some ?b"
    by (simp add: test_dispatcher_def)
  have g4: "(case Some ?g of
            None \<Rightarrow> np_empty (itemsize test_env) (allocator test_env) [3, 4] (result_dtype ?b)
                      (if get_arrays_ordering test_env [?c] AND ARRAY_C_ORDER test_env \<noteq> 0
                       then CHR ''C'' else CHR ''F'') ?w
          | Some given \<Rightarrow> (given, ?w)) = (?g, ?w)"
    by simp
  have g5: "Contig = select_strategy test_env (get_arrays_ordering test_env [?c])
                (is_broadcasting test_env (case Some ?g of None \<Rightarrow> [?c] | Some given \<Rightarrow> [?c] @ [given])
                   [3, 4])"
    by code_simp
  have g6: "2 = length [3, 4 :: npy_intp]"
    by simp
  have g7: "[3, 4] =
           (if Contig = Contig \<and> 3 < (2 :: nat)
            then [3, 4 :: npy_intp]
                   [0 := [3, 4] ! 0 * prod_list (map (\<lambda>i. [3, 4] ! i) [3..<2])]
            else [3, 4])"
    by simp
  have g8: "[[32, 8], [32, 8]] = map (broadcast_strides 2) (?g # [?c])"
    by (simp add: broadcast_strides_def)
  have m2: "Suc (length [?c]) = 2"
    and m3: "map a_data (?g # [?c]) = [2000, 1000]"
    and m5: "contents ?w = []"
    and m6: "\<And>m. ?w\<lparr>contents := m\<rparr> = \<lparr>allocated = [], contents = m\<rparr>"
    by (simp_all add: numeral_2_eq_2)
  note second = collapse_before_executor [OF g1 g2 g3 g4 g5 g6 g7 g8, unfolded n1 m2 m3 n4 m5 m6]
  from first second show ?thesis
    by (rule conjI)
qed



section \<open>Broadcasting of shapes\<close>

lemma broadcast_dim_aligned:
  "broadcast_dim (sh # shs) nd i cur =
     (if aligned_extent nd sh i = 1 then broadcast_dim shs nd i cur
      else if cur = 1 then broadcast_dim shs nd i (aligned_extent nd sh i)
      else if cur \<noteq> aligned_extent nd sh i then None
      else broadcast_dim shs nd i cur)"
proof (cases "nd \<le> i + length sh")
  case True
  then have "aligned_extent nd sh i = sh ! (i + length sh - nd)"
    by (simp add: aligned_extent_def)
  with True show ?thesis
    by (simp only: broadcast_dim.simps Let_def if_True)
next
  case False
  then have "aligned_extent nd sh i = 1"
    by (simp add: aligned_extent_def)
  with False show ?thesis
    by (simp only: broadcast_dim.simps if_False if_True simp_thms)
qed

declare broadcast_dim.simps(2) [simp del]

lemma broadcast_dim_mismatch:
  "(cur \<noteq> 1 \<and> (\<exists>b\<in>set shs. aligned_extent nd b i \<noteq> 1 \<and> aligned_extent nd b i \<noteq> cur))
   \<or> (\<exists>a\<in>set shs. \<exists>b\<in>set shs. aligned_extent nd a i \<noteq> 1 \<and> aligned_extent nd b i \<noteq> 1
         \<and> aligned_extent nd a i \<noteq> aligned_extent nd b i)
   \<Longrightarrow> broadcast_dim shs nd i cur = None"
proof (induction shs arbitrary: cur)
  case Nil
  then show ?case by simp
next
  case (Cons sh shs)
  let ?t = "aligned_extent nd sh i"
  show ?case
  proof (cases "?t = 1")
    case True
    with Cons.prems have "(cur \<noteq> 1 \<and> (\<exists>b\<in>set shs. aligned_extent nd b i \<noteq> 1 \<and> aligned_extent nd b i \<noteq> cur))
   \<or> (\<exists>a\<in>set shs. \<exists>b\<in>set shs. aligned_extent nd a i \<noteq> 1 \<and> aligned_extent nd b i \<noteq> 1
         \<and> aligned_extent nd a i \<noteq> aligned_extent nd b i)"
      by auto
    from Cons.IH [OF this] True show ?thesis
      by (simp add: broadcast_dim_aligned)
  next
    case False
    show ?thesis
    proof (cases "cur = 1")
      case True
      with Cons.prems False have "(?t \<noteq> 1 \<and> (\<exists>b\<in>set shs. aligned_extent nd b i \<noteq> 1 \<and> aligned_extent nd b i \<noteq> ?t))
   \<or> (\<exists>a\<in>set shs. \<exists>b\<in>set shs. aligned_extent nd a i \<noteq> 1 \<and> aligned_extent nd b i \<noteq> 1
         \<and> aligned_extent nd a i \<noteq> aligned_extent nd b i)"
        by auto
      from Cons.IH [OF this] True False show ?thesis
        by (simp add: broadcast_dim_aligned)
    next
      case cur: False
      show ?thesis
      proof (cases "cur = ?t")
        case False
        with cur \<open>?t \<noteq> 1\<close> show ?thesis
          by (simp add: broadcast_dim_aligned)
      next
        case True
        with Cons.prems cur have "(cur \<noteq> 1 \<and> (\<exists>b\<in>set shs. aligned_extent nd b i \<noteq> 1 \<and> aligned_extent nd b i \<noteq> cur))
   \<or> (\<exists>a\<in>set shs. \<exists>b\<in>set shs. aligned_extent nd a i \<noteq> 1 \<and> aligned_extent nd b i \<noteq> 1
         \<and> aligned_extent nd a i \<noteq> aligned_extent nd b i)"
          by auto
        from Cons.IH [OF this] True cur \<open>?t \<noteq> 1\<close> show ?thesis
          by (simp add: broadcast_dim_aligned)
      qed
    qed
  qed
qed

lemma broadcast_dim_compatible:
  "(\<forall>a\<in>set shs. \<forall>b\<in>set shs. aligned_extent nd a i = aligned_extent nd b i
        \<or> aligned_extent nd a i = 1 \<or> aligned_extent nd b i = 1) \<Longrightarrow>
   (\<forall>a\<in>set shs. aligned_extent nd a i = cur \<or> aligned_extent nd a i = 1 \<or> cur = 1) \<Longrightarrow>
   broadcast_dim shs nd i cur =
     Some (case filter (\<lambda>e. e \<noteq> 1) (cur # map (\<lambda>sh. aligned_extent nd sh i) shs) of
             [] \<Rightarrow> 1 | e # es \<Rightarrow> e)"
proof (induction shs arbitrary: cur)
  case Nil
  then show ?case by simp
next
  case (Cons sh shs)
  let ?t = "aligned_extent nd sh i"
  have pair: "\<forall>a\<in>set shs. \<forall>b\<in>set shs. aligned_extent nd a i = aligned_extent nd b i
        \<or> aligned_extent nd a i = 1 \<or> aligned_extent nd b i = 1"
    using Cons.prems(1) by simp
  show ?case
  proof (cases "?t = 1")
    case True
    have "\<forall>a\<in>set shs. aligned_extent nd a i = cur \<or> aligned_extent nd a i = 1 \<or> cur = 1"
      using Cons.prems(2) by simp
    from Cons.IH [OF pair this] True show ?thesis
      by (simp add: broadcast_dim_aligned)
  next
    case False
    have with_t: "\<forall>a\<in>set shs. aligned_extent nd a i = ?t \<or> aligned_extent nd a i = 1 \<or> ?t = 1"
      using Cons.prems(1) by auto
    have "cur = 1 \<or> cur = ?t"
      using Cons.prems(2) False by auto
    with Cons.IH [OF pair with_t] False show ?thesis
      by (auto simp: broadcast_dim_aligned)
  qed
qed

lemma fold_max_same: "(\<forall>x\<in>set es. x = e) \<Longrightarrow> fold max es e = (e :: npy_intp)"
  by (induction es) auto

lemma unified_extent_compatible:
  assumes "\<forall>a\<in>set shapes. \<forall>b\<in>set shapes.
        aligned_extent (broadcast_nd shapes) a i = aligned_extent (broadcast_nd shapes) b i
        \<or> aligned_extent (broadcast_nd shapes) a i = 1
        \<or> aligned_extent (broadcast_nd shapes) b i = 1"
  shows "broadcast_dim shapes (broadcast_nd shapes) i 1 = Some (unified_extent shapes i)"
proof -
  let ?es = "filter (\<lambda>e. e \<noteq> 1) (map (\<lambda>sh. aligned_extent (broadcast_nd shapes) sh i) shapes)"
  have same: "\<forall>x\<in>set ?es. \<forall>y\<in>set ?es. x = y"
    using assms by auto
  have "unified_extent shapes i = (case ?es of [] \<Rightarrow> 1 | e # es \<Rightarrow> e)"
  proof (cases ?es)
    case Nil
    then show ?thesis by (simp add: unified_extent_def)
  next
    case (Cons e es)
    with same have "\<forall>x\<in>set es. x = e" by auto
    then have "fold max es e = e" by (rule fold_max_same)
    with Cons show ?thesis by (simp add: unified_extent_def)
  qed
  moreover have "broadcast_dim shapes (broadcast_nd shapes) i 1 =
                 Some (case ?es of [] \<Rightarrow> 1 | e # es \<Rightarrow> e)"
    using broadcast_dim_compatible [OF assms, of 1] by simp
  ultimately show ?thesis by simp
qed

lemma broadcast_dims_Some:
  "(\<forall>i\<in>set is. broadcast_dim shapes nd i 1 = Some (f i)) \<Longrightarrow>
   broadcast_dims shapes nd is = Some (map f is)"
  by (induction "is") auto

lemma broadcast_dims_None:
  "i \<in> set is \<Longrightarrow> broadcast_dim shapes nd i 1 = None \<Longrightarrow> broadcast_dims shapes nd is = None"
  by (induction "is") (auto split: option.splits)

lemma broadcast_dims_length:
  "broadcast_dims shapes nd is = Some sh \<Longrightarrow> length sh = length is"
  by (induction "is" arbitrary: sh) (auto split: option.splits)

lemma np_broadcast_length: "np_broadcast shapes = Some sh \<Longrightarrow> length sh = broadcast_nd shapes"
  unfolding np_broadcast_def by (drule broadcast_dims_length) simp

lemma np_broadcast_compatible:
  assumes "broadcast_compatible shapes"
  shows "np_broadcast shapes = Some (standard_broadcast_shape shapes)"
  unfolding np_broadcast_def standard_broadcast_shape_def
proof (rule broadcast_dims_Some, intro ballI)
  fix i assume "i \<in> set [0..<broadcast_nd shapes]"
  then have "i < broadcast_nd shapes" by simp
  with assms show "broadcast_dim shapes (broadcast_nd shapes) i 1 = Some (unified_extent shapes i)"
    by (intro unified_extent_compatible) (simp add: broadcast_compatible_def)
qed

lemma np_broadcast_mismatch:
  assumes "shape_mismatch shapes"
  shows "np_broadcast shapes = None"
proof -
  from assms obtain i a b where i: "i < broadcast_nd shapes"
    and ab: "a \<in> set shapes" "b \<in> set shapes"
    and ne: "aligned_extent (broadcast_nd shapes) a i \<noteq> aligned_extent (broadcast_nd shapes) b i"
    and big: "1 < aligned_extent (broadcast_nd shapes) a i" "1 < aligned_extent (broadcast_nd shapes) b i"
    unfolding shape_mismatch_def by blast
  from big have "aligned_extent (broadcast_nd shapes) a i \<noteq> 1"
    "aligned_extent (broadcast_nd shapes) b i \<noteq> 1"
    by auto
  with ab ne have "broadcast_dim shapes (broadcast_nd shapes) i 1 = None"
    by (intro broadcast_dim_mismatch) blast
  with i show ?thesis
    unfolding np_broadcast_def by (intro broadcast_dims_None [of i]) simp_all
qed

section \<open>The failures of a call\<close>

lemma call_after_broadcast:
  assumes "length args = nin self"
    and "np_broadcast (map a_shape (case out of None \<Rightarrow> args | Some given \<Rightarrow> args @ [given]))
         = Some bshape"
  shows "fst (call E self args out w) \<noteq> Inl ShapeMismatch"
proof (cases "functions_tab self (map a_dtype args, length bshape)")
  case None
  with assms show ?thesis by (simp add: call_def Let_def)
next
  case (Some b)
  obtain out' w' where ow: "(case out of
           None \<Rightarrow> np_empty (itemsize E) (allocator E) bshape (result_dtype b)
                     (if get_arrays_ordering E args AND ARRAY_C_ORDER E \<noteq> 0
                      then CHR ''C'' else CHR ''F'') w
         | Some given \<Rightarrow> (given, w)) = (out', w')"
    by (cases "(case out of
           None \<Rightarrow> np_empty (itemsize E) (allocator E) bshape (result_dtype b)
                     (if get_arrays_ordering E args AND ARRAY_C_ORDER E \<noteq> 0
                      then CHR ''C'' else CHR ''F'') w
         | Some given \<Rightarrow> (given, w))") auto
  let ?st = "select_strategy E (get_arrays_ordering E args)
               (is_broadcasting E (case out of None \<Rightarrow> args | Some given \<Rightarrow> args @ [given]) bshape)"
  have "call E self args out w =
        run_ufunc E (pick ?st (function_pointers b)) bshape (length bshape) out' args
          (?st = Contig) w'"
    using assms Some ow by (simp add: call_def Let_def)
  then show ?thesis
    using run_ufunc_result [of E "pick ?st (function_pointers b)" bshape "length bshape" out' args
            "?st = Contig" w']
    by auto
qed

text \<open>
  Claim C8. A call with a number of positional operands other than \<open>nin\<close> fails with
  \<open>ArityError\<close> (the \<^verbatim>\<open>TypeError\<close> of line 66), whatever the shapes of the operands
  are and whether or not they could be broadcast, and leaves the world as it was:
  nothing has been allocated and no kernel has run.
\<close>

theorem arity_checked_first:
  assumes "length args \<noteq> nin self"
  shows "call E self args out w = (Inl (ArityError (nin self) (length args)), w)"
  using assms by (simp add: call_def)

theorem arity_checked_first_witness:
  "call test_env (test_dispatcher\<lparr>nin := 2\<rparr>)
     [\<lparr>a_dtype = ''float64'', a_shape = [3, 4], a_strides = [32, 8], a_data = 1000\<rparr>]
     None \<lparr>allocated = [], contents = []\<rparr> =
   (Inl (ArityError 2 1), \<lparr>allocated = [], contents = []\<rparr>)
   \<and> call test_env (test_dispatcher\<lparr>nin := 2\<rparr>)
     [\<lparr>a_dtype = ''float64'', a_shape = [3, 4], a_strides = [32, 8], a_data = 1000\<rparr>,
      \<lparr>a_dtype = ''float64'', a_shape = [3, 5], a_strides = [40, 8], a_data = 2000\<rparr>,
      \<lparr>a_dtype = ''float64'', a_shape = [3, 4], a_strides = [32, 8], a_data = 3000\<rparr>]
     None \<lparr>allocated = [], contents = []\<rparr> =
   (Inl (ArityError 2 3), \<lparr>allocated = [], contents = []\<rparr>)"
  using arity_checked_first [of
      "[\<lparr>a_dtype = ''float64'', a_shape = [3, 4], a_strides = [32, 8], a_data = 1000\<rparr>]"
      "test_dispatcher\<lparr>nin := 2\<rparr>" test_env None "\<lparr>allocated = [], contents = []\<rparr>"]
    arity_checked_first [of
      "[\<lparr>a_dtype = ''float64'', a_shape = [3, 4], a_strides = [32, 8], a_data = 1000\<rparr>,
        \<lparr>a_dtype = ''float64'', a_shape = [3, 5], a_strides = [40, 8], a_data = 2000\<rparr>,
        \<lparr>a_dtype = ''float64'', a_shape = [3, 4], a_strides = [32, 8], a_data = 3000\<rparr>]"
      "test_dispatcher\<lparr>nin := 2\<rparr>" test_env None "\<lparr>allocated = [], contents = []\<rparr>"]
  by simp

text \<open>
  Claim C6. A call with the right number of operands whose shapes broadcast, but whose
  key (the operands' dtypes, the number of broadcast dimensions) is not in the table,
  fails with \<open>UnsupportedSignature\<close> (the \<^verbatim>\<open>ValueError\<close> of line 86) and leaves the
  world as it was: no output is allocated, no kernel runs and nothing is written. Only
  the exact key is looked up, once, whatever else the table holds.
\<close>

theorem unsupported_signature:
  assumes "length args = nin self"
    and "np_broadcast (map a_shape (case out of None \<Rightarrow> args | Some given \<Rightarrow> args @ [given]))
         = Some broadcast_shape"
    and "functions_tab self (map a_dtype args, length broadcast_shape) = None"
  shows "call E self args out w = (Inl (UnsupportedSignature (map a_dtype args)), w)"
  using assms by (simp add: call_def Let_def)

theorem unsupported_signature_witness:
  "call test_env test_dispatcher
     [\<lparr>a_dtype = ''float64'', a_shape = [2, 2, 2], a_strides = [32, 16, 8], a_data = 1000\<rparr>]
     None \<lparr>allocated = [], contents = []\<rparr> =
   (Inl (UnsupportedSignature [''float64'']), \<lparr>allocated = [], contents = []\<rparr>)"
proof -
  let ?a = "\<lparr>a_dtype = ''float64'', a_shape = [2, 2, 2], a_strides = [32, 16, 8], a_data = 1000\<rparr>"
  have h1: "length [?a] = nin test_dispatcher"
    by (simp add: test_dispatcher_def)
  have h2: "np_broadcast (map a_shape (case None of None \<Rightarrow> [?a] | Some given \<Rightarrow> [?a] @ [given]))
            = Some [2, 2, 2]"
    by code_simp
  have h3: "functions_tab test_dispatcher (map a_dtype [?a], length [2, 2, 2 :: npy_intp]) = None"
    by (simp add: test_dispatcher_def)
  from unsupported_signature [OF h1 h2 h3, of test_env "\<lparr>allocated = [], contents = []\<rparr>"]
  show ?thesis by simp
qed

text \<open>
  Claim C7. For a call with the right number of operands: if two of the operands that
  are broadcast (the inputs, and the output when the caller gave one) have different
  extents, both greater than 1, in the same dimension counted from the last, the call
  fails with \<open>ShapeMismatch\<close> and leaves the world as it was; if the shapes are
  broadcast-compatible, \<^verbatim>\<open>np.broadcast\<close> returns the unified shape and the call does
  not fail with \<open>ShapeMismatch\<close>.
\<close>

theorem shape_mismatch_fails:
  assumes "length args = nin self"
  shows "(shape_mismatch (map a_shape (case out of None \<Rightarrow> args | Some given \<Rightarrow> args @ [given]))
            \<longrightarrow> call E self args out w = (Inl ShapeMismatch, w))
         \<and> (broadcast_compatible
               (map a_shape (case out of None \<Rightarrow> args | Some given \<Rightarrow> args @ [given]))
            \<longrightarrow> np_broadcast
                  (map a_shape (case out of None \<Rightarrow> args | Some given \<Rightarrow> args @ [given]))
                = Some (standard_broadcast_shape
                    (map a_shape (case out of None \<Rightarrow> args | Some given \<Rightarrow> args @ [given])))
                \<and> fst (call E self args out w) \<noteq> Inl ShapeMismatch)"
proof (intro conjI impI)
  assume "shape_mismatch (map a_shape (case out of None \<Rightarrow> args | Some given \<Rightarrow> args @ [given]))"
  then have "np_broadcast (map a_shape (case out of None \<Rightarrow> args | Some given \<Rightarrow> args @ [given]))
             = None"
    by (rule np_broadcast_mismatch)
  with assms show "call E self args out w = (Inl ShapeMismatch, w)"
    by (simp add: call_def Let_def)
next
  assume "broadcast_compatible
            (map a_shape (case out of None \<Rightarrow> args | Some given \<Rightarrow> args @ [given]))"
  then show ok: "np_broadcast
                  (map a_shape (case out of None \<Rightarrow> args | Some given \<Rightarrow> args @ [given]))
                = Some (standard_broadcast_shape
                    (map a_shape (case out of None \<Rightarrow> args | Some given \<Rightarrow> args @ [given])))"
    by (rule np_broadcast_compatible)
  from call_after_broadcast [OF assms ok]
  show "fst (call E self args out w) \<noteq> Inl ShapeMismatch" .
qed

theorem shape_mismatch_fails_witness:
  "call test_env (test_dispatcher\<lparr>nin := 2\<rparr>)
     [\<lparr>a_dtype = ''float64'', a_shape = [3, 4], a_strides = [32, 8], a_data = 1000\<rparr>,
      \<lparr>a_dtype = ''float64'', a_shape = [3, 5], a_strides = [40, 8], a_data = 2000\<rparr>]
     None \<lparr>allocated = [], contents = []\<rparr> =
   (Inl ShapeMismatch, \<lparr>allocated = [], contents = []\<rparr>)
   \<and> np_broadcast [[3, 4], [4]] = Some [3, 4]
   \<and> fst (call test_env (test_dispatcher\<lparr>nin := 2\<rparr>)
     [\<lparr>a_dtype = ''float64'', a_shape = [3, 4], a_strides = [32, 8], a_data = 1000\<rparr>,
      \<lparr>a_dtype = ''float64'', a_shape = [4], a_strides = [8], a_data = 2000\<rparr>]
     None \<lparr>allocated = [], contents = []\<rparr>) \<noteq> Inl ShapeMismatch"
proof -
  let ?a = "\<lparr>a_dtype = ''float64'', a_shape = [3, 4], a_strides = [32, 8], a_data = 1000\<rparr>"
  let ?b = "\<lparr>a_dtype = ''float64'', a_shape = [3, 5], a_strides = [40, 8], a_data = 2000\<rparr>"
  let ?c = "\<lparr>a_dtype = ''float64'', a_shape = [4], a_strides = [8], a_data = 2000\<rparr>"
  let ?w = "\<lparr>allocated = [], contents = [] :: (fptr \<times> kcall) list\<rparr>"
  have len: "length [?a, ?b] = nin (test_dispatcher\<lparr>nin := 2\<rparr>)"
    "length [?a, ?c] = nin (test_dispatcher\<lparr>nin := 2\<rparr>)"
    by simp_all
  have bad: "shape_mismatch (map a_shape (case None of None \<Rightarrow> [?a, ?b] | Some given \<Rightarrow> [?a, ?b] @ [given]))"
    unfolding shape_mismatch_def
    by (rule exI [of _ 1]) (simp add: broadcast_nd_def aligned_extent_def)
  have good: "broadcast_compatible
                (map a_shape (case None of None \<Rightarrow> [?a, ?c] | Some given \<Rightarrow> [?a, ?c] @ [given]))"
    by (simp add: broadcast_compatible_def broadcast_nd_def aligned_extent_def)
  have std: "standard_broadcast_shape
                (map a_shape (case None of None \<Rightarrow> [?a, ?c] | Some given \<Rightarrow> [?a, ?c] @ [given]))
             = [3, 4]"
    by code_simp
  have shapes: "map a_shape (case None of None \<Rightarrow> [?a, ?c] | Some given \<Rightarrow> [?a, ?c] @ [given])
                = [[3, 4], [4]]"
    by simp
  from shape_mismatch_fails [OF len(1), of None test_env ?w] bad
  have first: "call test_env (test_dispatcher\<lparr>nin := 2\<rparr>) [?a, ?b] None ?w = (Inl ShapeMismatch, ?w)"
    by blast
  from shape_mismatch_fails [OF len(2), of None test_env ?w] good
  have "np_broadcast (map a_shape (case None of None \<Rightarrow> [?a, ?c] | Some given \<Rightarrow> [?a, ?c] @ [given]))
        = Some (standard_broadcast_shape
             (map a_shape (case None of None \<Rightarrow> [?a, ?c] | Some given \<Rightarrow> [?a, ?c] @ [given])))
        \<and> fst (call test_env (test_dispatcher\<lparr>nin := 2\<rparr>) [?a, ?c] None ?w) \<noteq> Inl ShapeMismatch"
    by blast
  then have second: "np_broadcast [[3, 4], [4]] = Some [3, 4]"
    and third: "fst (call test_env (test_dispatcher\<lparr>nin := 2\<rparr>) [?a, ?c] None ?w) \<noteq> Inl ShapeMismatch"
    unfolding std unfolding shapes by simp_all
  from first second third show ?thesis
    by (intro conjI)
qed


section \<open>The broadcast plan\<close>

lemma fold_max_length:
  "n \<le> fold (\<lambda>sh nd. max nd (length sh)) shapes n
   \<and> (\<forall>sh\<in>set shapes. length sh \<le> fold (\<lambda>sh nd. max nd (length (sh :: npy_intp list))) shapes n)"
proof (induction shapes arbitrary: n)
  case Nil
  show ?case by simp
next
  case (Cons s shapes)
  from Cons [of "max n (length s)"] show ?case
    by auto
qed

lemma broadcast_nd_ge: "sh \<in> set shapes \<Longrightarrow> length sh \<le> broadcast_nd shapes"
  unfolding broadcast_nd_def using fold_max_length [of 0 shapes] by blast

lemma length_broadcast_strides:
  "length (a_strides a) = length (a_shape a) \<Longrightarrow> length (a_shape a) \<le> ndim \<Longrightarrow>
   length (broadcast_strides ndim a) = ndim"
  by (simp add: broadcast_strides_def)

lemma nth_broadcast_strides:
  assumes "length (a_strides a) = length (a_shape a)" and "length (a_shape a) \<le> ndim"
    and "d < ndim"
  shows "broadcast_strides ndim a ! d =
           (if aligned_extent ndim (a_shape a) d = 1 then 0
            else a_strides a ! (d + length (a_shape a) - ndim))"
proof (cases "d < ndim - length (a_shape a)")
  case True
  then have "\<not> ndim \<le> d + length (a_shape a)" by simp
  with True show ?thesis
    by (simp add: broadcast_strides_def aligned_extent_def nth_append)
next
  case False
  then have le: "ndim \<le> d + length (a_shape a)" by simp
  have idx: "d - (ndim - length (a_shape a)) = d + length (a_shape a) - ndim"
    using assms(2) le by simp
  have inside: "d + length (a_shape a) - ndim < length (a_shape a)"
    using assms(3) le by simp
  from False le inside assms(1) show ?thesis
    by (simp add: broadcast_strides_def aligned_extent_def nth_append idx)
qed

lemma length_standard_broadcast_shape:
  "length (standard_broadcast_shape shapes) = broadcast_nd shapes"
  by (simp add: standard_broadcast_shape_def)

text \<open>
  Claim C2 as stated does not hold for the stride part. For the shapes \<open>(1, 3)\<close> and
  \<open>(3)\<close> the unified shape is \<open>(1, 3)\<close>; the second operand is left-padded in
  dimension 0 and gets stride 0 there, although the unified extent 1 of that dimension
  is not greater than the padded extent.
\<close>

theorem padded_stride_counterexample:
  "np_broadcast [[1, 3], [3]] = Some [1, 3]
   \<and> broadcast_strides 2
        \<lparr>a_dtype = ''float64'', a_shape = [3], a_strides = [8], a_data = 2000\<rparr> ! 0 = 0
   \<and> aligned_extent 2 [3] 0 = 1
   \<and> \<not> 1 < [1, 3 :: npy_intp] ! 0"
  by code_simp

text \<open>
  Claim C2, amended. For operands with broadcast-compatible shapes, the unified shape
  that \<^verbatim>\<open>np.broadcast\<close> returns is the standard broadcasting result and is what the
  shape buffer holds; the planned stride vector of every operand (with as many strides
  as extents) has one entry per unified dimension, and its entry is 0 in every
  dimension where the operand is left-padded or declares extent 1, whether or not the
  unified extent is greater, and the operand's own stride in every other dimension. So
  a planned stride is 0 exactly in those dimensions and in the ones where the own
  stride is 0 already.
\<close>

theorem broadcast_plan:
  assumes "broadcast_compatible (map a_shape arrays)"
    and "a \<in> set arrays"
    and "length (a_strides a) = length (a_shape a)"
  shows "np_broadcast (map a_shape arrays) = Some (standard_broadcast_shape (map a_shape arrays))
         \<and> fst (broadcast_arrays arrays (standard_broadcast_shape (map a_shape arrays))
                  (broadcast_nd (map a_shape arrays)))
             = standard_broadcast_shape (map a_shape arrays)
         \<and> broadcast_strides (broadcast_nd (map a_shape arrays)) a
             \<in> set (snd (broadcast_arrays arrays (standard_broadcast_shape (map a_shape arrays))
                        (broadcast_nd (map a_shape arrays))))
         \<and> length (broadcast_strides (broadcast_nd (map a_shape arrays)) a)
             = broadcast_nd (map a_shape arrays)
         \<and> (\<forall>d<broadcast_nd (map a_shape arrays).
               broadcast_strides (broadcast_nd (map a_shape arrays)) a ! d =
                 (if aligned_extent (broadcast_nd (map a_shape arrays)) (a_shape a) d = 1 then 0
                  else a_strides a ! (d + length (a_shape a) - broadcast_nd (map a_shape arrays))))"
proof -
  let ?nd = "broadcast_nd (map a_shape arrays)"
  have le: "length (a_shape a) \<le> ?nd"
    using assms(2) by (intro broadcast_nd_ge) simp
  have "np_broadcast (map a_shape arrays) = Some (standard_broadcast_shape (map a_shape arrays))"
    using assms(1) by (rule np_broadcast_compatible)
  moreover have "fst (broadcast_arrays arrays (standard_broadcast_shape (map a_shape arrays)) ?nd)
             = standard_broadcast_shape (map a_shape arrays)"
    by (simp add: broadcast_arrays_def length_standard_broadcast_shape)
  moreover have "broadcast_strides ?nd a
             \<in> set (snd (broadcast_arrays arrays (standard_broadcast_shape (map a_shape arrays)) ?nd))"
    using assms(2) by (simp add: broadcast_arrays_def)
  moreover have "length (broadcast_strides ?nd a) = ?nd"
    using assms(3) le by (rule length_broadcast_strides)
  moreover have "\<forall>d<?nd. broadcast_strides ?nd a ! d =
                 (if aligned_extent ?nd (a_shape a) d = 1 then 0
                  else a_strides a ! (d + length (a_shape a) - ?nd))"
    using assms(3) le by (simp add: nth_broadcast_strides)
  ultimately show ?thesis
    by (intro conjI)
qed

theorem broadcast_plan_witness:
  "np_broadcast [[3, 1], [4]] = Some [3, 4]
   \<and> fst (broadcast_arrays
        [\<lparr>a_dtype = ''float64'', a_shape = [3, 1], a_strides = [8, 8], a_data = 1000\<rparr>,
         \<lparr>a_dtype = ''float64'', a_shape = [4], a_strides = [8], a_data = 2000\<rparr>] [3, 4] 2)
       = [3, 4]
   \<and> broadcast_strides 2
        \<lparr>a_dtype = ''float64'', a_shape = [3, 1], a_strides = [8, 8], a_data = 1000\<rparr> = [8, 0]
   \<and> broadcast_strides 2
        \<lparr>a_dtype = ''float64'', a_shape = [4], a_strides = [8], a_data = 2000\<rparr> = [0, 8]"
proof -
  let ?a = "\<lparr>a_dtype = ''float64'', a_shape = [3, 1], a_strides = [8, 8], a_data = 1000\<rparr>"
  let ?b = "\<lparr>a_dtype = ''float64'', a_shape = [4], a_strides = [8], a_data = 2000\<rparr>"
  have compat: "broadcast_compatible (map a_shape [?a, ?b])"
    by (simp add: broadcast_compatible_def broadcast_nd_def aligned_extent_def)
  have nd: "broadcast_nd (map a_shape [?a, ?b]) = 2"
    by (simp add: broadcast_nd_def)
  have std: "standard_broadcast_shape (map a_shape [?a, ?b]) = [3, 4]"
    by code_simp
  have shapes: "map a_shape [?a, ?b] = [[3, 1], [4]]"
    by simp
  have ina: "?a \<in> set [?a, ?b]" and inb: "?b \<in> set [?a, ?b]"
    by simp_all
  have wfa: "length (a_strides ?a) = length (a_shape ?a)"
    and wfb: "length (a_strides ?b) = length (a_shape ?b)"
    by simp_all
  note pa = broadcast_plan [OF compat ina wfa, unfolded nd std]
  note pb = broadcast_plan [OF compat inb wfb, unfolded nd std]
  from pa have shape: "np_broadcast [[3, 1], [4]] = Some [3, 4]"
    unfolding shapes by (rule conjunct1)
  from pa have buf: "fst (broadcast_arrays [?a, ?b] [3, 4] 2) = [3, 4]"
    by (rule conjunct2 [THEN conjunct1])
  from pa have la: "length (broadcast_strides 2 ?a) = 2"
    and na: "\<forall>d<2. broadcast_strides 2 ?a ! d =
                (if aligned_extent 2 (a_shape ?a) d = 1 then 0
                 else a_strides ?a ! (d + length (a_shape ?a) - 2))"
    by blast+
  from pb have lb: "length (broadcast_strides 2 ?b) = 2"
    and nb: "\<forall>d<2. broadcast_strides 2 ?b ! d =
                (if aligned_extent 2 (a_shape ?b) d = 1 then 0
                 else a_strides ?b ! (d + length (a_shape ?b) - 2))"
    by blast+
  have sa: "broadcast_strides 2 ?a = [8, 0]"
  proof (rule nth_equalityI)
    show "length (broadcast_strides 2 ?a) = length [8, 0 :: npy_intp]"
      using la by simp
    fix i assume "i < length (broadcast_strides 2 ?a)"
    with la have "i = 0 \<or> i = 1" by auto
    with na show "broadcast_strides 2 ?a ! i = [8, 0] ! i"
      by (auto simp: aligned_extent_def)
  qed
  have sb: "broadcast_strides 2 ?b = [0, 8]"
  proof (rule nth_equalityI)
    show "length (broadcast_strides 2 ?b) = length [0, 8 :: npy_intp]"
      using lb by simp
    fix i assume "i < length (broadcast_strides 2 ?b)"
    with lb have "i = 0 \<or> i = 1" by auto
    with nb show "broadcast_strides 2 ?b ! i = [0, 8] ! i"
      by (auto simp: aligned_extent_def)
  qed
  from shape buf sa sb show ?thesis
    by (intro conjI)
qed

section \<open>The choice of the specialization and the value returned\<close>

lemma select_strategy_contig:
  "select_strategy E order any_broadcasting = Contig
   \<longleftrightarrow> order AND ARRAYS_ARE_CONTIG E \<noteq> 0 \<and> \<not> any_broadcasting"
  by (simp add: select_strategy_def Let_def)

lemma pick_total:
  "pick st (contig_func, inner_contig_func, tiled_func, strided_func)
   \<in> {contig_func, inner_contig_func, tiled_func, strided_func}"
  by (cases st) simp_all

lemma run_ufunc_allocated:
  "allocated (snd (run_ufunc E fp bshape ndim out arrays contig w)) = allocated w"
  unfolding run_ufunc_unfold by (auto split: prod.splits option.splits fault.splits)

lemma call_result_none:
  "fst (call E self args out w) = Inr r \<Longrightarrow> r = None"
proof -
  assume r: "fst (call E self args out w) = Inr r"
  have run: "\<And>fp bshape ndim out' w' c. fst (run_ufunc E fp bshape ndim out' args c w') = Inr r \<Longrightarrow> r = None"
    subgoal for fp bshape ndim out' w' c
      using run_ufunc_result [of E fp bshape ndim out' args c w'] by auto
    done
  from r show ?thesis
    by (auto simp: call_def Let_def split: if_splits option.splits prod.splits dest: run)
qed

lemma call_allocates:
  assumes "length args = nin self"
    and "np_broadcast (map a_shape args) = Some bshape"
    and "functions_tab self (map a_dtype args, length bshape) = Some b"
  shows "allocated (snd (call E self args None w)) =
         allocated w @
         [\<lparr>a_dtype = result_dtype b, a_shape = bshape,
           a_strides = (if get_arrays_ordering E args AND ARRAY_C_ORDER E \<noteq> 0
                        then c_strides (itemsize E (result_dtype b)) bshape
                        else f_strides (itemsize E (result_dtype b)) bshape),
           a_data = allocator E (allocated w)\<rparr>]"
  using assms by (simp add: call_def Let_def np_empty_def run_ufunc_allocated)

text \<open>
  Claim C3 fails on the code where the output overlaps an input. The docstring of
  \<^verbatim>\<open>__call__\<close> says that it has to "check for overlapping memory", but the branch for
  a given output is \<^verbatim>\<open># TODO: check for read-after-write\<close> and \<^verbatim>\<open>pass\<close>, and the
  ordering is computed from the inputs alone. Here the input is the four contiguous
  \<open>float64\<close> items at address 1000 and the caller's output the four items at address
  1008, so that item 0 of the output is item 1 of the input: the call selects the
  contiguous specialization (the native code at address 10) and runs it.
\<close>

theorem contig_selected_despite_overlap:
  "call test_env test_dispatcher
     [\<lparr>a_dtype = ''float64'', a_shape = [4], a_strides = [8], a_data = 1000\<rparr>]
     (Some \<lparr>a_dtype = ''float64'', a_shape = [4], a_strides = [8], a_data = 1008\<rparr>)
     \<lparr>allocated = [], contents = []\<rparr> =
   (Inr None,
    \<lparr>allocated = [],
     contents = [(10, \<lparr>shape_arg = 0, data_arg = [1008, 1000], strides_arg = [0, 0]\<rparr>)]\<rparr>)
   \<and> element_address \<lparr>a_dtype = ''float64'', a_shape = [4], a_strides = [8], a_data = 1008\<rparr> [0]
     = element_address \<lparr>a_dtype = ''float64'', a_shape = [4], a_strides = [8], a_data = 1000\<rparr> [1]"
  by code_simp

text \<open>
  The layout of a given output is not examined either: with an output of every second
  item (stride 16) the contiguous specialization is selected as well.
\<close>

lemma contig_selected_for_strided_out:
  "call test_env test_dispatcher
     [\<lparr>a_dtype = ''float64'', a_shape = [4], a_strides = [8], a_data = 1000\<rparr>]
     (Some \<lparr>a_dtype = ''float64'', a_shape = [4], a_strides = [16], a_data = 2000\<rparr>)
     \<lparr>allocated = [], contents = []\<rparr> =
   (Inr None,
    \<lparr>allocated = [],
     contents = [(10, \<lparr>shape_arg = 0, data_arg = [2000, 1000], strides_arg = [0, 0]\<rparr>)]\<rparr>)"
  by code_simp

text \<open>
  Claim C9 fails on the code in what is returned. \<^verbatim>\<open>__call__\<close> returns the value of
  \<^verbatim>\<open>run_ufunc\<close>, which has no \<^verbatim>\<open>return\<close> statement (\<^verbatim>\<open>run_ufunc_ctypes\<close> ends with
  \<^verbatim>\<open>return out\<close>). For a contiguous \<open>3 \<times> 4\<close> input of \<open>float64\<close> and no output
  given, a row-major \<open>3 \<times> 4\<close> buffer of the result dtype is allocated and handed to
  the kernel as operand 0, and the call returns \<^verbatim>\<open>None\<close>; with an output given, that
  buffer is handed to the kernel and the call returns \<^verbatim>\<open>None\<close> again.
\<close>

theorem call_returns_none:
  "call test_env test_dispatcher
     [\<lparr>a_dtype = ''float64'', a_shape = [3, 4], a_strides = [32, 8], a_data = 1000\<rparr>]
     None \<lparr>allocated = [], contents = []\<rparr> =
   (Inr None,
    \<lparr>allocated = [\<lparr>a_dtype = ''float64'', a_shape = [3, 4], a_strides = [32, 8], a_data = 4096\<rparr>],
     contents = [(10, \<lparr>shape_arg = 0, data_arg = [4096, 1000], strides_arg = [0, 0]\<rparr>)]\<rparr>)
   \<and> call test_env test_dispatcher
     [\<lparr>a_dtype = ''float64'', a_shape = [3, 4], a_strides = [32, 8], a_data = 1000\<rparr>]
     (Some \<lparr>a_dtype = ''float64'', a_shape = [3, 4], a_strides = [32, 8], a_data = 2000\<rparr>)
     \<lparr>allocated = [], contents = []\<rparr> =
   (Inr None,
    \<lparr>allocated = [],
     contents = [(10, \<lparr>shape_arg = 0, data_arg = [2000, 1000], strides_arg = [0, 0]\<rparr>)]\<rparr>)"
  by code_simp

end
